theory Spec2Isabelle
  imports Main "HOL-Library.Sublist"
begin

section \<open>Text\<close>

text \<open>
  The script \<^verbatim>\<open>generate_certs.py\<close> works on Python \<^verbatim>\<open>str\<close> values. A \<^verbatim>\<open>str\<close> is
  represented here by the list of its UTF-8 bytes, so an ASCII character is one
  \<^typ>\<open>char\<close> and a Chinese character of the messages is three. The contents of a file
  are represented in the same way: the text that \<^verbatim>\<open>f.read()\<close> returns and
  \<^verbatim>\<open>f.write\<close> stores. Decoding errors and the newline translation of text-mode
  files are not represented.
\<close>

subsection \<open>The messages of the script\<close>

text \<open>The prefix \<^verbatim>\<open>"<Error>: "\<close> that \<^verbatim>\<open>error\<close> puts before every message.\<close>

definition msg_error :: string where
  "msg_error = [CHR 0xE9, CHR 0x94, CHR 0x99, CHR 0xE8, CHR 0xAF, CHR 0xAF] @ '': ''"

text \<open>\<^verbatim>\<open>"<Executing command>: "\<close>, printed by \<^verbatim>\<open>run_command\<close>.\<close>

definition msg_run :: string where
  "msg_run = [CHR 0xE6, CHR 0x89, CHR 0xA7, CHR 0xE8, CHR 0xA1, CHR 0x8C, CHR 0xE5, CHR 0x91, CHR 0xBD,
     CHR 0xE4, CHR 0xBB, CHR 0xA4] @ '': ''"

text \<open>\<^verbatim>\<open>"<Command failed>: "\<close>.\<close>

definition msg_command_failed :: string where
  "msg_command_failed = [CHR 0xE5, CHR 0x91, CHR 0xBD, CHR 0xE4, CHR 0xBB, CHR 0xA4, CHR 0xE6, CHR 0x89,
     CHR 0xA7, CHR 0xE8, CHR 0xA1, CHR 0x8C, CHR 0xE5, CHR 0xA4, CHR 0xB1, CHR 0xE8, CHR 0xB4, CHR 0xA5] @ '': ''"

text \<open>\<^verbatim>\<open>"<OpenSSL not found. Make sure OpenSSL is installed and in PATH.>"\<close>\<close>

definition msg_no_openssl :: string where
  "msg_no_openssl = [CHR 0xE6, CHR 0x9C, CHR 0xAA, CHR 0xE6, CHR 0x89, CHR 0xBE, CHR 0xE5, CHR 0x88, CHR 0xB0] @
     ''OpenSSL'' @ [CHR 0xE3, CHR 0x80, CHR 0x82, CHR 0xE8, CHR 0xAF, CHR 0xB7, CHR 0xE7, CHR 0xA1, CHR 0xAE,
     CHR 0xE4, CHR 0xBF, CHR 0x9D] @ ''OpenSSL'' @ [CHR 0xE5, CHR 0xB7, CHR 0xB2, CHR 0xE5, CHR 0xAE, CHR 0x89,
     CHR 0xE8, CHR 0xA3, CHR 0x85, CHR 0xE5, CHR 0xB9, CHR 0xB6, CHR 0xE5, CHR 0x9C, CHR 0xA8] @ ''PATH'' @
     [CHR 0xE4, CHR 0xB8, CHR 0xAD, CHR 0xE3, CHR 0x80, CHR 0x82]"

text \<open>\<^verbatim>\<open>"<Generating the CA certificate>..."\<close> and \<^verbatim>\<open>"<CA certificate generated>"\<close>.\<close>

definition msg_ca_begin :: string where
  "msg_ca_begin = [CHR 0xE7, CHR 0x94, CHR 0x9F, CHR 0xE6, CHR 0x88, CHR 0x90] @ ''CA'' @
     [CHR 0xE8, CHR 0xAF, CHR 0x81, CHR 0xE4, CHR 0xB9, CHR 0xA6] @ ''...''"

definition msg_ca_done :: string where
  "msg_ca_done = ''CA'' @ [CHR 0xE8, CHR 0xAF, CHR 0x81, CHR 0xE4, CHR 0xB9, CHR 0xA6, CHR 0xE7, CHR 0x94,
     CHR 0x9F, CHR 0xE6, CHR 0x88, CHR 0x90, CHR 0xE5, CHR 0xAE, CHR 0x8C, CHR 0xE6, CHR 0x88, CHR 0x90]"

text \<open>
  \<^verbatim>\<open>"<For domain> {domain} <generating the server certificate>..."\<close>, in its two
  parts, \<^verbatim>\<open>"<Missing required file>: "\<close> and
  \<^verbatim>\<open>"<Server certificate generated>: ca/"\<close>.
\<close>

definition msg_server_begin1 :: string where
  "msg_server_begin1 = [CHR 0xE4, CHR 0xB8, CHR 0xBA, CHR 0xE5, CHR 0x9F, CHR 0x9F, CHR 0xE5, CHR 0x90,
     CHR 0x8D] @ '' ''"

definition msg_server_begin2 :: string where
  "msg_server_begin2 = '' '' @ [CHR 0xE7, CHR 0x94, CHR 0x9F, CHR 0xE6, CHR 0x88, CHR 0x90, CHR 0xE6, CHR 0x9C,
     CHR 0x8D, CHR 0xE5, CHR 0x8A, CHR 0xA1, CHR 0xE5, CHR 0x99, CHR 0xA8, CHR 0xE8, CHR 0xAF, CHR 0x81,
     CHR 0xE4, CHR 0xB9, CHR 0xA6] @ ''...''"

definition msg_missing_file :: string where
  "msg_missing_file = [CHR 0xE7, CHR 0xBC, CHR 0xBA, CHR 0xE5, CHR 0xB0, CHR 0x91, CHR 0xE5, CHR 0xBF, CHR 0x85,
     CHR 0xE8, CHR 0xA6, CHR 0x81, CHR 0xE6, CHR 0x96, CHR 0x87, CHR 0xE4, CHR 0xBB, CHR 0xB6] @ '': ''"

definition msg_server_done :: string where
  "msg_server_done = [CHR 0xE6, CHR 0x9C, CHR 0x8D, CHR 0xE5, CHR 0x8A, CHR 0xA1, CHR 0xE5, CHR 0x99, CHR 0xA8,
     CHR 0xE8, CHR 0xAF, CHR 0x81, CHR 0xE4, CHR 0xB9, CHR 0xA6, CHR 0xE7, CHR 0x94, CHR 0x9F, CHR 0xE6,
     CHR 0x88, CHR 0x90, CHR 0xE5, CHR 0xAE, CHR 0x8C, CHR 0xE6, CHR 0x88, CHR 0x90] @ '': ca/''"

text \<open>\<^verbatim>\<open>"<All certificates generated>"\<close>.\<close>

definition msg_all_done :: string where
  "msg_all_done = [CHR 0xE6, CHR 0x89, CHR 0x80, CHR 0xE6, CHR 0x9C, CHR 0x89, CHR 0xE8, CHR 0xAF, CHR 0x81,
     CHR 0xE4, CHR 0xB9, CHR 0xA6, CHR 0xE7, CHR 0x94, CHR 0x9F, CHR 0xE6, CHR 0x88, CHR 0x90, CHR 0xE5,
     CHR 0xAE, CHR 0x8C, CHR 0xE6, CHR 0x88, CHR 0x90]"

subsection \<open>\<^verbatim>\<open>str.strip()\<close>\<close>

text \<open>
  \<^verbatim>\<open>strip()\<close> without argument removes the white-space code points from both ends.
  The list holds the UTF-8 encodings of all code points for which \<^verbatim>\<open>str.isspace\<close>
  is true: U+0009 to U+000D, U+001C to U+0020, U+0085, U+00A0, U+1680, U+2000 to U+200A,
  U+2028, U+2029, U+202F, U+205F and U+3000.
\<close>

definition whitespace :: "string list" where
  "whitespace =
    [[CHR 0x09], [CHR 0x0A], [CHR 0x0B], [CHR 0x0C], [CHR 0x0D],
     [CHR 0x1C], [CHR 0x1D], [CHR 0x1E], [CHR 0x1F], [CHR 0x20],
     [CHR 0xC2, CHR 0x85], [CHR 0xC2, CHR 0xA0], [CHR 0xE1, CHR 0x9A, CHR 0x80],
     [CHR 0xE2, CHR 0x80, CHR 0x80], [CHR 0xE2, CHR 0x80, CHR 0x81], [CHR 0xE2, CHR 0x80, CHR 0x82],
     [CHR 0xE2, CHR 0x80, CHR 0x83], [CHR 0xE2, CHR 0x80, CHR 0x84], [CHR 0xE2, CHR 0x80, CHR 0x85],
     [CHR 0xE2, CHR 0x80, CHR 0x86], [CHR 0xE2, CHR 0x80, CHR 0x87], [CHR 0xE2, CHR 0x80, CHR 0x88],
     [CHR 0xE2, CHR 0x80, CHR 0x89], [CHR 0xE2, CHR 0x80, CHR 0x8A], [CHR 0xE2, CHR 0x80, CHR 0xA8],
     [CHR 0xE2, CHR 0x80, CHR 0xA9], [CHR 0xE2, CHR 0x80, CHR 0xAF], [CHR 0xE2, CHR 0x81, CHR 0x9F],
     [CHR 0xE3, CHR 0x80, CHR 0x80]]"

text \<open>The length of the first pattern that the text begins with, 0 when there is none.\<close>

fun match_len :: "string list \<Rightarrow> string \<Rightarrow> nat" where
  "match_len [] s = 0"
| "match_len (w # ws) s = (if prefix w s then length w else match_len ws s)"

lemma match_len_le: "match_len ws s \<le> length s"
  by (induction ws) (auto simp: prefix_length_le)

function drop_leading :: "string list \<Rightarrow> string \<Rightarrow> string" where
  "drop_leading ws s =
     (if match_len ws s = 0 then s else drop_leading ws (drop (match_len ws s) s))"
  by pat_completeness auto
termination
proof (relation "measure (\<lambda>(ws, s). length s)")
  show "wf (measure (\<lambda>(ws, s). length s))" by simp
next
  fix ws :: "string list" and s :: string
  assume "match_len ws s \<noteq> 0"
  moreover have "match_len ws s \<le> length s" by (rule match_len_le)
  ultimately show "((ws, drop (match_len ws s) s), (ws, s)) \<in> measure (\<lambda>(ws, s). length s)"
    by simp
qed

definition lstrip :: "string \<Rightarrow> string" where
  "lstrip s = drop_leading whitespace s"

definition rstrip :: "string \<Rightarrow> string" where
  "rstrip s = rev (drop_leading (map rev whitespace) (rev s))"

definition strip :: "string \<Rightarrow> string" where
  "strip s = rstrip (lstrip s)"

section \<open>The process and its environment\<close>

text \<open>
  The file system is a map from path names to the contents of regular files. Directories,
  permissions and the failures of the operating system (a full disk, a read-only
  directory) are not represented.
\<close>

type_synonym files = "string \<rightharpoonup> string"

text \<open>The value that \<^verbatim>\<open>subprocess.run\<close> returns.\<close>

record completed_process =
  returncode :: int
  stdout :: string
  stderr :: string

text \<open>
  What the script takes from outside: the shell that runs an \<^verbatim>\<open>openssl\<close> command line,
  and the name that \<^verbatim>\<open>tempfile.mkstemp\<close> chooses. Both may read the files and a
  state \<^typ>\<open>'w\<close> of their own (entropy, the clock, the serial file), which the script never
  looks at; the shell may change the files.
\<close>

record 'w platform =
  shell :: "string \<Rightarrow> files \<Rightarrow> 'w \<Rightarrow> completed_process \<times> files \<times> 'w"
  mkstemp :: "files \<Rightarrow> 'w \<Rightarrow> string \<times> 'w"

text \<open>
  The calls with an effect outside the process, in the order in which they are made.
\<close>

datatype event =
    Makedirs string
  | Write string string
  | Mkstemp string
  | Exec string
  | Move string string
  | Unlink string

text \<open>
  The state of a run: the files, the state of the environment, the module's global list
  \<^verbatim>\<open>temp_files\<close>, what has been printed on the two streams (one entry for each call of
  \<^verbatim>\<open>print\<close>), and the calls made so far.
\<close>

record 'w state =
  fs :: files
  world :: 'w
  temp_files :: "string list"
  printed :: "string list"
  printed_err :: "string list"
  trace :: "event list"

text \<open>
  The exceptions that can leave a function of the script: \<^verbatim>\<open>SystemExit\<close> with its
  status, raised by \<^verbatim>\<open>sys.exit\<close>, and \<^verbatim>\<open>FileNotFoundError\<close> with the path.
\<close>

datatype exn = SystemExit int | FileNotFoundError string

text \<open>
  A statement of the script takes the state and gives the state after it, together with
  the value it returns or the exception it raises.
\<close>

type_synonym ('w, 'a) py = "'w state \<Rightarrow> (exn + 'a) \<times> 'w state"

definition py_return :: "'a \<Rightarrow> ('w, 'a) py" where
  "py_return x s = (Inr x, s)"

definition py_raise :: "exn \<Rightarrow> ('w, 'a) py" where
  "py_raise e s = (Inl e, s)"

text \<open>One statement after another: an exception of the first skips the second.\<close>

definition py_then :: "('w, 'a) py \<Rightarrow> ('a \<Rightarrow> ('w, 'b) py) \<Rightarrow> ('w, 'b) py" where
  "py_then m f s = (case m s of (Inl e, s') \<Rightarrow> (Inl e, s') | (Inr x, s') \<Rightarrow> f x s')"

text \<open>\<^verbatim>\<open>for x in xs: body\<close>\<close>

primrec py_for :: "'a list \<Rightarrow> ('a \<Rightarrow> ('w, unit) py) \<Rightarrow> ('w, unit) py" where
  "py_for [] body = py_return ()"
| "py_for (x # xs) body = py_then (body x) (\<lambda>_. py_for xs body)"

text \<open>\<^verbatim>\<open>try: body  except: handler\<close>; the bare \<^verbatim>\<open>except\<close> catches every exception.\<close>

definition py_try :: "('w, 'a) py \<Rightarrow> ('w, 'a) py \<Rightarrow> ('w, 'a) py" where
  "py_try body handler s = (case body s of (Inl e, s') \<Rightarrow> handler s' | (Inr x, s') \<Rightarrow> (Inr x, s'))"

subsection \<open>Library calls\<close>

definition print :: "string \<Rightarrow> ('w, unit) py" where
  "print text s = (Inr (), s\<lparr>printed := printed s @ [text]\<rparr>)"

definition print_stderr :: "string \<Rightarrow> ('w, unit) py" where
  "print_stderr text s = (Inr (), s\<lparr>printed_err := printed_err s @ [text]\<rparr>)"

definition sys_exit :: "int \<Rightarrow> ('w, 'a) py" where
  "sys_exit n = py_raise (SystemExit n)"

definition subprocess_run :: "'w platform \<Rightarrow> string \<Rightarrow> ('w, completed_process) py" where
  "subprocess_run P command s =
     (case shell P command (fs s) (world s) of
        (result, files', world') \<Rightarrow>
          (Inr result, s\<lparr>fs := files', world := world', trace := trace s @ [Exec command]\<rparr>))"

text \<open>
  \<^verbatim>\<open>tempfile.mkstemp()\<close> creates an empty file and returns its path. That the path is
  a new one is a promise of the library and is not assumed here.
\<close>

definition tempfile_mkstemp :: "'w platform \<Rightarrow> ('w, string) py" where
  "tempfile_mkstemp P s =
     (case mkstemp P (fs s) (world s) of
        (path, world') \<Rightarrow>
          (Inr path, s\<lparr>fs := (fs s)(path \<mapsto> []), world := world', trace := trace s @ [Mkstemp path]\<rparr>))"

text \<open>\<^verbatim>\<open>os.write(fd, content)\<close>, on the descriptor of the file at \<open>path\<close>: the bytes go to its end.\<close>

definition os_write :: "string \<Rightarrow> string \<Rightarrow> ('w, unit) py" where
  "os_write path content s =
     (Inr (), s\<lparr>fs := (fs s)(path \<mapsto> (case fs s path of None \<Rightarrow> content | Some old \<Rightarrow> old @ content)),
                trace := trace s @ [Write path content]\<rparr>)"

definition os_path_exists :: "string \<Rightarrow> ('w, bool) py" where
  "os_path_exists path s = (Inr (fs s path \<noteq> None), s)"

text \<open>
  \<^verbatim>\<open>os.makedirs(path, exist_ok=True)\<close>: directories are not represented, so the call is
  recorded and has no other effect.
\<close>

definition os_makedirs :: "string \<Rightarrow> ('w, unit) py" where
  "os_makedirs path s = (Inr (), s\<lparr>trace := trace s @ [Makedirs path]\<rparr>)"

text \<open>\<^verbatim>\<open>with open(path, "w") as f: f.write(content)\<close>\<close>

definition write_file :: "string \<Rightarrow> string \<Rightarrow> ('w, unit) py" where
  "write_file path content s =
     (Inr (), s\<lparr>fs := (fs s)(path \<mapsto> content), trace := trace s @ [Write path content]\<rparr>)"

text \<open>\<^verbatim>\<open>with open(path, "r") as f: f.read()\<close>\<close>

definition read_file :: "string \<Rightarrow> ('w, string) py" where
  "read_file path s =
     (case fs s path of None \<Rightarrow> (Inl (FileNotFoundError path), s) | Some content \<Rightarrow> (Inr content, s))"

text \<open>\<^verbatim>\<open>os.unlink\<close> and \<^verbatim>\<open>os.remove\<close> are the same call.\<close>

definition os_unlink :: "string \<Rightarrow> ('w, unit) py" where
  "os_unlink path s =
     (if fs s path = None
      then (Inl (FileNotFoundError path), s\<lparr>trace := trace s @ [Unlink path]\<rparr>)
      else (Inr (), s\<lparr>fs := (fs s)(path := None), trace := trace s @ [Unlink path]\<rparr>))"

definition os_remove :: "string \<Rightarrow> ('w, unit) py" where
  "os_remove path = os_unlink path"

text \<open>\<^verbatim>\<open>shutil.move(src, dst)\<close> between two regular files renames \<open>src\<close> over \<open>dst\<close>.\<close>

definition shutil_move :: "string \<Rightarrow> string \<Rightarrow> ('w, unit) py" where
  "shutil_move src dst s =
     (case fs s src of
        None \<Rightarrow> (Inl (FileNotFoundError src), s\<lparr>trace := trace s @ [Move src dst]\<rparr>)
      | Some content \<Rightarrow>
          (Inr (), s\<lparr>fs := (if src = dst then fs s else ((fs s)(dst \<mapsto> content))(src := None)),
                     trace := trace s @ [Move src dst]\<rparr>))"

section \<open>The script\<close>

subsection \<open>Errors, commands and temporary files\<close>

text \<open>\<^verbatim>\<open>error\<close> prints the message on the error stream and exits with status 1.\<close>

definition error :: "string \<Rightarrow> ('w, 'a) py" where
  "error message = py_then (print_stderr (msg_error @ message)) (\<lambda>_. sys_exit 1)"

text \<open>
  \<^verbatim>\<open>run_command\<close> announces the command, runs it in the shell with its output captured,
  and ends in \<^verbatim>\<open>error\<close> when \<open>check\<close> is set (the default) and the status is not 0.
\<close>

definition run_command :: "'w platform \<Rightarrow> string \<Rightarrow> bool \<Rightarrow> ('w, completed_process) py" where
  "run_command P command check =
     py_then (print (msg_run @ command)) (\<lambda>_.
     py_then (subprocess_run P command) (\<lambda>result.
     py_then (if check \<and> returncode result \<noteq> 0
              then error (msg_command_failed @ command @ ''\<newline>'' @ stderr result)
              else py_return ()) (\<lambda>_.
     py_return result)))"

text \<open>
  \<^verbatim>\<open>create_temp_file\<close>: \<^verbatim>\<open>mkstemp\<close>, \<^verbatim>\<open>os.write\<close> of the encoded contents,
  \<^verbatim>\<open>temp_files.append(path)\<close>. The \<^verbatim>\<open>os.close\<close> between them has no counterpart.
\<close>

definition create_temp_file :: "'w platform \<Rightarrow> string \<Rightarrow> ('w, string) py" where
  "create_temp_file P content =
     py_then (tempfile_mkstemp P) (\<lambda>path.
     py_then (os_write path content) (\<lambda>_.
     py_then (\<lambda>s. (Inr (), s\<lparr>temp_files := temp_files s @ [path]\<rparr>)) (\<lambda>_.
     py_return path)))"

text \<open>
  \<^verbatim>\<open>cleanup_temp_files\<close> goes through the list and ignores whatever \<^verbatim>\<open>os.unlink\<close>
  raises.
\<close>

definition cleanup_temp_files :: "('w, unit) py" where
  "cleanup_temp_files s =
     py_for (temp_files s) (\<lambda>path. py_try (os_unlink path) (py_return ())) s"

text \<open>
  In \<^verbatim>\<open>check_openssl\<close> the bare \<^verbatim>\<open>except\<close> also catches the exit that \<^verbatim>\<open>run_command\<close>
  raises after a failed command, and \<^verbatim>\<open>error\<close> is then called a second time.
\<close>

definition check_openssl :: "'w platform \<Rightarrow> ('w, unit) py" where
  "check_openssl P =
     py_try (py_then (run_command P ''openssl version'' True) (\<lambda>_. py_return ()))
            (error msg_no_openssl)"

subsection \<open>The default configuration files\<close>

definition openssl_cnf :: string where
  "openssl_cnf =
     ''\<newline>'' @
     ''[ req ]\<newline>'' @
     ''default_bits        = 2048\<newline>'' @
     ''default_md          = sha256\<newline>'' @
     ''default_keyfile     = privkey.pem\<newline>'' @
     ''distinguished_name  = req_distinguished_name\<newline>'' @
     ''req_extensions      = v3_req\<newline>'' @
     ''x509_extensions     = v3_ca\<newline>'' @
     ''\<newline>'' @
     ''[ req_distinguished_name ]\<newline>'' @
     ''countryName                     = '' @ [CHR 0xE5, CHR 0x9B, CHR 0xBD, CHR 0xE5, CHR 0xAE, CHR 0xB6, CHR 0xE4, CHR 0xBB, CHR 0xA3, CHR 0xE7, CHR 0xA0, CHR 0x81] @ '' (2'' @ [CHR 0xE5, CHR 0xAD, CHR 0x97, CHR 0xE7, CHR 0xAC, CHR 0xA6] @ '')\<newline>'' @
     ''countryName_default             = CN\<newline>'' @
     ''stateOrProvinceName             = '' @ [CHR 0xE7, CHR 0x9C, CHR 0x81] @ ''/'' @ [CHR 0xE5, CHR 0xB7, CHR 0x9E] @ ''\<newline>'' @
     ''stateOrProvinceName_default     = State\<newline>'' @
     ''localityName                    = '' @ [CHR 0xE5, CHR 0x9F, CHR 0x8E, CHR 0xE5, CHR 0xB8, CHR 0x82] @ ''\<newline>'' @
     ''localityName_default            = City\<newline>'' @
     ''organizationName                = '' @ [CHR 0xE7, CHR 0xBB, CHR 0x84, CHR 0xE7, CHR 0xBB, CHR 0x87, CHR 0xE5, CHR 0x90, CHR 0x8D, CHR 0xE7, CHR 0xA7, CHR 0xB0] @ ''\<newline>'' @
     ''organizationName_default        = Organization\<newline>'' @
     ''organizationalUnitName          = '' @ [CHR 0xE7, CHR 0xBB, CHR 0x84, CHR 0xE7, CHR 0xBB, CHR 0x87, CHR 0xE5, CHR 0x8D, CHR 0x95, CHR 0xE4, CHR 0xBD, CHR 0x8D, CHR 0xE5, CHR 0x90, CHR 0x8D, CHR 0xE7, CHR 0xA7, CHR 0xB0] @ ''\<newline>'' @
     ''organizationalUnitName_default  = Unit\<newline>'' @
     ''commonName                      = '' @ [CHR 0xE9, CHR 0x80, CHR 0x9A, CHR 0xE7, CHR 0x94, CHR 0xA8, CHR 0xE5, CHR 0x90, CHR 0x8D, CHR 0xE7, CHR 0xA7, CHR 0xB0] @ ''\<newline>'' @
     ''commonName_max                  = 64\<newline>'' @
     ''commonName_default              = localhost\<newline>'' @
     ''emailAddress                    = '' @ [CHR 0xE7, CHR 0x94, CHR 0xB5, CHR 0xE5, CHR 0xAD, CHR 0x90, CHR 0xE9, CHR 0x82, CHR 0xAE, CHR 0xE4, CHR 0xBB, CHR 0xB6, CHR 0xE5, CHR 0x9C, CHR 0xB0, CHR 0xE5, CHR 0x9D, CHR 0x80] @ ''\<newline>'' @
     ''emailAddress_max                = 64\<newline>'' @
     ''emailAddress_default            = admin@example.com\<newline>'' @
     ''\<newline>'' @
     ''[ v3_req ]\<newline>'' @
     ''basicConstraints       = CA:FALSE\<newline>'' @
     ''keyUsage               = nonRepudiation, digitalSignature, keyEncipherment\<newline>'' @
     ''extendedKeyUsage       = serverAuth\<newline>'' @
     ''subjectAltName         = @alt_names\<newline>'' @
     ''\<newline>'' @
     ''[ v3_ca ]\<newline>'' @
     ''basicConstraints       = critical, CA:true\<newline>'' @
     ''subjectKeyIdentifier   = hash\<newline>'' @
     ''authorityKeyIdentifier = keyid:always, issuer:always\<newline>'' @
     ''keyUsage               = cRLSign, keyCertSign, digitalSignature, nonRepudiation, keyEncipherment, dataEncipherment\<newline>''"

definition v3_ca_cnf :: string where
  "v3_ca_cnf =
     ''\<newline>'' @
     ''[ v3_ca ]\<newline>'' @
     ''basicConstraints       = critical, CA:true\<newline>'' @
     ''subjectKeyIdentifier   = hash\<newline>'' @
     ''authorityKeyIdentifier = keyid:always, issuer:always\<newline>'' @
     ''keyUsage               = cRLSign, keyCertSign, digitalSignature, nonRepudiation, keyEncipherment, dataEncipherment\<newline>''"

definition v3_req_cnf :: string where
  "v3_req_cnf =
     ''\<newline>'' @
     ''[ v3_req ]\<newline>'' @
     ''basicConstraints       = CA:FALSE\<newline>'' @
     ''keyUsage               = nonRepudiation, digitalSignature, keyEncipherment\<newline>'' @
     ''extendedKeyUsage       = serverAuth\<newline>'' @
     ''subjectAltName         = @alt_names\<newline>''"

definition domain_cnf :: "string \<Rightarrow> string" where
  "domain_cnf domain =
     ''\<newline>'' @
     ''[ alt_names ]\<newline>'' @
     ''DNS.1 = '' @ domain @ ''\<newline>''"

definition domain_subj :: "string \<Rightarrow> string" where
  "domain_subj domain = ''/C=CN/ST=State/L=City/O=Organization/OU=Unit/CN='' @ domain"

definition create_default_config_files :: "string \<Rightarrow> ('w, unit) py" where
  "create_default_config_files domain =
     py_then (os_makedirs ''ca'') (\<lambda>_.
     py_then (py_then (os_path_exists ''ca/openssl.cnf'') (\<lambda>ex.
                if \<not> ex then write_file ''ca/openssl.cnf'' openssl_cnf else py_return ())) (\<lambda>_.
     py_then (py_then (os_path_exists ''ca/v3_ca.cnf'') (\<lambda>ex.
                if \<not> ex then write_file ''ca/v3_ca.cnf'' v3_ca_cnf else py_return ())) (\<lambda>_.
     py_then (py_then (os_path_exists ''ca/v3_req.cnf'') (\<lambda>ex.
                if \<not> ex then write_file ''ca/v3_req.cnf'' v3_req_cnf else py_return ())) (\<lambda>_.
     py_then (py_then (os_path_exists (''ca/'' @ domain @ ''.cnf'')) (\<lambda>ex.
                if \<not> ex then write_file (''ca/'' @ domain @ ''.cnf'') (domain_cnf domain)
                else py_return ())) (\<lambda>_.
     py_then (os_path_exists (''ca/'' @ domain @ ''.subj'')) (\<lambda>ex.
                if \<not> ex then write_file (''ca/'' @ domain @ ''.subj'') (domain_subj domain)
                else py_return ()))))))"

subsection \<open>The certificate authority\<close>

text \<open>The two command lines of \<^verbatim>\<open>generate_ca_cert\<close>, as the source writes them.\<close>

definition ca_key_command :: string where
  "ca_key_command = ''openssl genrsa -out ca/ca.key 2048''"

definition ca_cert_command :: string where
  "ca_cert_command =
     ''openssl req -new -x509 -days 36500 -key ca/ca.key -out ca/ca.crt -subj '' @ [CHR 0x22] @
     ''/C=CN/ST=State/L=City/O=TraeProxy CA/OU=TraeProxy/CN=TraeProxy Root CA'' @ [CHR 0x22]"

definition generate_ca_cert :: "'w platform \<Rightarrow> ('w, unit) py" where
  "generate_ca_cert P =
     py_then (print msg_ca_begin) (\<lambda>_.
     py_then (run_command P ca_key_command True) (\<lambda>_.
     py_then (run_command P ca_cert_command True) (\<lambda>_.
     print msg_ca_done)))"

subsection \<open>The server certificate\<close>

definition required_files :: "string \<Rightarrow> string list" where
  "required_files domain =
     [''ca/openssl.cnf'',
      ''ca/v3_req.cnf'',
      ''ca/'' @ domain @ ''.cnf'',
      ''ca/'' @ domain @ ''.subj'',
      ''ca/ca.key'',
      ''ca/ca.crt'']"

text \<open>The four command lines of \<^verbatim>\<open>generate_server_cert\<close>, as its f-strings build them.\<close>

definition leaf_key_command :: "string \<Rightarrow> string" where
  "leaf_key_command domain = ''openssl genrsa -out ca/'' @ domain @ ''.key 2048''"

definition pkcs8_command :: "string \<Rightarrow> string" where
  "pkcs8_command domain =
     ''openssl pkcs8 -topk8 -nocrypt -in ca/'' @ domain @ ''.key -out ca/'' @ domain @ ''.key.pkcs8''"

definition csr_command :: "string \<Rightarrow> string \<Rightarrow> string \<Rightarrow> string" where
  "csr_command domain temp_cnf subj =
     ''openssl req -reqexts v3_req -sha256 -new -key ca/'' @ domain @ ''.key -out ca/'' @ domain @
     ''.csr -config '' @ temp_cnf @ '' -subj '' @ [CHR 0x22] @ subj @ [CHR 0x22]"

definition sign_command :: "string \<Rightarrow> string \<Rightarrow> string" where
  "sign_command domain temp_cnf =
     ''openssl x509 -req -days 365 -in ca/'' @ domain @
     ''.csr -CA ca/ca.crt -CAkey ca/ca.key -CAcreateserial -out ca/'' @ domain @
     ''.crt -extfile '' @ temp_cnf @ '' -extensions v3_req''"

definition generate_server_cert :: "'w platform \<Rightarrow> string \<Rightarrow> ('w, unit) py" where
  "generate_server_cert P domain =
     py_then (print (msg_server_begin1 @ domain @ msg_server_begin2)) (\<lambda>_.
     py_then (py_for (required_files domain) (\<lambda>file.
                py_then (os_path_exists file) (\<lambda>ex.
                  if \<not> ex then error (msg_missing_file @ file) else py_return ()))) (\<lambda>_.
     py_then (read_file ''ca/openssl.cnf'') (\<lambda>openssl_cnf'.
     py_then (read_file ''ca/v3_req.cnf'') (\<lambda>v3_req_cnf'.
     py_then (read_file (''ca/'' @ domain @ ''.cnf'')) (\<lambda>domain_cnf'.
     py_then (py_then (read_file (''ca/'' @ domain @ ''.subj'')) (\<lambda>text. py_return (strip text)))
       (\<lambda>domain_subj'.
     py_then (create_temp_file P
                (openssl_cnf' @ ''\<newline>'' @ v3_req_cnf' @ ''\<newline>'' @ domain_cnf')) (\<lambda>temp_cnf.
     py_then (run_command P (leaf_key_command domain) True) (\<lambda>_.
     py_then (run_command P (pkcs8_command domain) True) (\<lambda>_.
     py_then (shutil_move (''ca/'' @ domain @ ''.key.pkcs8'') (''ca/'' @ domain @ ''.key'')) (\<lambda>_.
     py_then (run_command P (csr_command domain temp_cnf domain_subj') True) (\<lambda>_.
     py_then (run_command P (sign_command domain temp_cnf) True) (\<lambda>_.
     py_then (os_remove (''ca/'' @ domain @ ''.csr'')) (\<lambda>_.
     print (msg_server_done @ domain @ ''.crt''))))))))))))))"

subsection \<open>The program\<close>

text \<open>\<open>argv\<close> is \<^verbatim>\<open>sys.argv\<close>: the name of the script, then the arguments.\<close>

definition main :: "'w platform \<Rightarrow> string list \<Rightarrow> ('w, unit) py" where
  "main P argv =
     (let domain = (if length argv > 1 \<and> argv ! 1 = ''--domain'' \<and> length argv > 2
                    then argv ! 2 else ''api.openai.com'')
      in py_then (check_openssl P) (\<lambda>_.
         py_then (create_default_config_files domain) (\<lambda>_.
         py_then (generate_ca_cert P) (\<lambda>_.
         py_then (generate_server_cert P domain) (\<lambda>_.
         print msg_all_done)))))"

text \<open>
  A run of the script as a process. The module starts with \<^verbatim>\<open>temp_files = []\<close> and
  registers \<^verbatim>\<open>cleanup_temp_files\<close> with \<^verbatim>\<open>atexit\<close>, so the interpreter calls it
  when \<^verbatim>\<open>main\<close> has returned and also when an exception has left it. The exit
  status is 0 after a return, the argument of \<^verbatim>\<open>sys.exit\<close> after a
  \<^verbatim>\<open>SystemExit\<close> and 1 after any other exception.
\<close>

definition initial_state :: "files \<Rightarrow> 'w \<Rightarrow> 'w state" where
  "initial_state files w =
     \<lparr>fs = files, world = w, temp_files = [], printed = [], printed_err = [], trace = []\<rparr>"

fun exit_status :: "exn + unit \<Rightarrow> int" where
  "exit_status (Inr _) = 0"
| "exit_status (Inl (SystemExit n)) = n"
| "exit_status (Inl (FileNotFoundError _)) = 1"

definition run_script :: "'w platform \<Rightarrow> string list \<Rightarrow> files \<Rightarrow> 'w \<Rightarrow> int \<times> 'w state" where
  "run_script P argv files w =
     (case main P argv (initial_state files w) of
        (r, s) \<Rightarrow> (exit_status r, snd (cleanup_temp_files s)))"

section \<open>Reading command lines\<close>

text \<open>
  The text that follows the first occurrence of an option in a command line, and the
  number of days that a command line asks for with \<^verbatim>\<open>-days\<close>.
\<close>

fun after_flag :: "string \<Rightarrow> string \<Rightarrow> string option" where
  "after_flag flag [] = None"
| "after_flag flag (c # cs) =
     (if prefix flag (c # cs) then Some (drop (length flag) (c # cs)) else after_flag flag cs)"



section \<open>A stand-in environment\<close>

text \<open>
  An environment on which the script can be run here. Its shell refuses the command
  lines that begin with \<open>failing\<close> (when that text is not empty) with status 1 and changes
  nothing then; it accepts every other command line and, when the line has an option
  \<^verbatim>\<open>-out\<close>, writes a file of that name whose contents depend on a counter, so that no two
  generated files are equal. Its \<^verbatim>\<open>mkstemp\<close> names the files after the same counter.
\<close>

definition stub_shell ::
  "string \<Rightarrow> string \<Rightarrow> files \<Rightarrow> nat \<Rightarrow> completed_process \<times> files \<times> nat" where
  "stub_shell failing command files n =
     (if failing \<noteq> [] \<and> prefix failing command
      then (\<lparr>returncode = 1, stdout = [], stderr = ''failure''\<rparr>, files, n)
      else (\<lparr>returncode = 0, stdout = [], stderr = []\<rparr>,
            (case after_flag ''-out '' command of
               None \<Rightarrow> files
             | Some rest \<Rightarrow>
                 files(takeWhile (\<lambda>c. c \<noteq> CHR '' '') rest \<mapsto> replicate (Suc n) (CHR ''#''))),
            Suc n))"

definition stub_platform :: "string \<Rightarrow> nat platform" where
  "stub_platform failing =
     \<lparr>shell = stub_shell failing,
      mkstemp = (\<lambda>files n. (''/tmp/tmp'' @ replicate n (CHR ''x''), Suc n))\<rparr>"

text \<open>
  The four configuration files that the server certificate for \<^verbatim>\<open>example.com\<close> needs,
  with their default contents: the configuration is there, the certificate authority is
  not.
\<close>

definition files_without_ca :: files where
  "files_without_ca =
     [''ca/openssl.cnf'' \<mapsto> openssl_cnf,
      ''ca/v3_req.cnf'' \<mapsto> v3_req_cnf,
      ''ca/example.com.cnf'' \<mapsto> domain_cnf ''example.com'',
      ''ca/example.com.subj'' \<mapsto> domain_subj ''example.com'']"

section \<open>Notions used in the statements\<close>

text \<open>
  The five configuration files with their fixed default contents, in the words of the
  specification: the three shared templates, then the SAN block and the subject line of
  the domain.
\<close>

definition default_files :: "string \<Rightarrow> (string \<times> string) list" where
  "default_files domain =
     [(''ca/openssl.cnf'', openssl_cnf),
      (''ca/v3_ca.cnf'', v3_ca_cnf),
      (''ca/v3_req.cnf'', v3_req_cnf),
      (''ca/'' @ domain @ ''.cnf'', domain_cnf domain),
      (''ca/'' @ domain @ ''.subj'', domain_subj domain)]"

text \<open>
  The default configuration for \<^verbatim>\<open>example.com\<close> together with a certificate authority
  left by an earlier run.
\<close>

definition files_with_old_ca :: files where
  "files_with_old_ca =
     (map_of (default_files ''example.com''))
       (''ca/ca.key'' \<mapsto> ''old key'', ''ca/ca.crt'' \<mapsto> ''old certificate'')"

text \<open>
  The statements of \<^verbatim>\<open>generate_server_cert\<close> that follow the check of the required
  files, under a name of their own.
\<close>

definition issue :: "'w platform \<Rightarrow> string \<Rightarrow> ('w, unit) py" where
  "issue P domain =
     py_then (read_file ''ca/openssl.cnf'') (\<lambda>openssl_cnf'.
     py_then (read_file ''ca/v3_req.cnf'') (\<lambda>v3_req_cnf'.
     py_then (read_file (''ca/'' @ domain @ ''.cnf'')) (\<lambda>domain_cnf'.
     py_then (py_then (read_file (''ca/'' @ domain @ ''.subj'')) (\<lambda>text. py_return (strip text)))
       (\<lambda>domain_subj'.
     py_then (create_temp_file P
                (openssl_cnf' @ ''\<newline>'' @ v3_req_cnf' @ ''\<newline>'' @ domain_cnf')) (\<lambda>temp_cnf.
     py_then (run_command P (leaf_key_command domain) True) (\<lambda>_.
     py_then (run_command P (pkcs8_command domain) True) (\<lambda>_.
     py_then (shutil_move (''ca/'' @ domain @ ''.key.pkcs8'') (''ca/'' @ domain @ ''.key'')) (\<lambda>_.
     py_then (run_command P (csr_command domain temp_cnf domain_subj') True) (\<lambda>_.
     py_then (run_command P (sign_command domain temp_cnf) True) (\<lambda>_.
     py_then (os_remove (''ca/'' @ domain @ ''.csr'')) (\<lambda>_.
     print (msg_server_done @ domain @ ''.crt''))))))))))))"

text \<open>
  For a run of the server certificate for \<^verbatim>\<open>example.com\<close> on these files in the stand-in
  environment: the merged profile, the subject line and the calls of a complete run.
\<close>

definition merged0 :: string where
  "merged0 = openssl_cnf @ ''\<newline>'' @ v3_req_cnf @ ''\<newline>'' @ domain_cnf ''example.com''"

definition subj0 :: string where
  "subj0 = strip (domain_subj ''example.com'')"

definition steps0 :: "event list" where
  "steps0 =
     [Mkstemp ''/tmp/tmp'', Write ''/tmp/tmp'' merged0,
      Exec (leaf_key_command ''example.com''), Exec (pkcs8_command ''example.com''),
      Move ''ca/example.com.key.pkcs8'' ''ca/example.com.key'',
      Exec (csr_command ''example.com'' ''/tmp/tmp'' subj0),
      Exec (sign_command ''example.com'' ''/tmp/tmp''),
      Unlink ''ca/example.com.csr'']"

text \<open>
  The paths of the temporary files that have been created, and the states in which each
  of them is in the list \<^verbatim>\<open>temp_files\<close>. A statement keeps track when it leads from such
  states to such states, whether it returns or raises.
\<close>

definition created :: "event list \<Rightarrow> string set" where
  "created evs = {p. Mkstemp p \<in> set evs}"

definition tracked :: "'w state \<Rightarrow> bool" where
  "tracked s \<longleftrightarrow> created (trace s) \<subseteq> set (temp_files s)"

definition keeps_track :: "('w, 'a) py \<Rightarrow> bool" where
  "keeps_track m \<longleftrightarrow> (\<forall>s. tracked s \<longrightarrow> tracked (snd (m s)))"

section \<open>Releasing the temporary files\<close>

text \<open>
  The loop of \<^verbatim>\<open>cleanup_temp_files\<close> over any list of paths returns normally, has
  removed every path of the list and has left the other files alone.
\<close>

lemma cleanup_loop:
  "py_for ps (\<lambda>path. py_try (os_unlink path) (py_return ())) s =
     (Inr (), s\<lparr>fs := (\<lambda>p. if p \<in> set ps then None else fs s p),
                trace := trace s @ map Unlink ps\<rparr>)"
proof (induction ps arbitrary: s)
  case Nil
  show ?case by (simp add: py_return_def)
next
  case (Cons a ps)
  have step: "py_try (os_unlink a) (py_return ()) s =
      (Inr (), s\<lparr>fs := (fs s)(a := None), trace := trace s @ [Unlink a]\<rparr>)"
    by (auto simp: py_try_def os_unlink_def py_return_def fun_upd_idem)
  show ?case
    by (simp add: py_then_def step Cons.IH)
       (rule arg_cong2 [where f = "\<lambda>a b. s\<lparr>fs := a, trace := b\<rparr>"], auto)
qed

text \<open>
  Claim C8. \<^verbatim>\<open>cleanup_temp_files\<close> never raises: in every state it returns normally.
  Afterwards no tracked path names a file, whether or not its file was still there and
  however often the path is in the list, and every other file is as before; the list
  itself is unchanged, and a second call changes no file.
\<close>

theorem cleanup_never_raises:
  "fst (cleanup_temp_files s) = Inr ()
   \<and> fs (snd (cleanup_temp_files s)) = (\<lambda>p. if p \<in> set (temp_files s) then None else fs s p)
   \<and> temp_files (snd (cleanup_temp_files s)) = temp_files s
   \<and> fs (snd (cleanup_temp_files (snd (cleanup_temp_files s)))) = fs (snd (cleanup_temp_files s))"
  by (auto simp: cleanup_temp_files_def cleanup_loop)

section \<open>Running a command\<close>

text \<open>
  \<^verbatim>\<open>run_command\<close> with \<^verbatim>\<open>check=True\<close>: the command is announced and run; a status
  other than 0 ends in \<^verbatim>\<open>error\<close>, which prints the diagnostic and exits with status 1.
\<close>

lemma run_command_eq:
  "run_command P c True s =
     (case shell P c (fs s) (world s) of
        (r, f', w') \<Rightarrow>
          if returncode r \<noteq> 0
          then (Inl (SystemExit 1),
                s\<lparr>fs := f', world := w', printed := printed s @ [msg_run @ c],
                  printed_err := printed_err s @
                    [msg_error @ msg_command_failed @ c @ ''\<newline>'' @ stderr r],
                  trace := trace s @ [Exec c]\<rparr>)
          else (Inr r,
                s\<lparr>fs := f', world := w', printed := printed s @ [msg_run @ c],
                  trace := trace s @ [Exec c]\<rparr>))"
  by (simp add: run_command_def py_then_def print_def subprocess_run_def error_def
        print_stderr_def sys_exit_def py_raise_def py_return_def split: prod.splits)

section \<open>The check of the required files\<close>

text \<open>
  The loop over \<^verbatim>\<open>required_files\<close> stops at the first path that names no file, with
  the diagnostic for that path, and changes nothing when all are there.
\<close>

lemma check_loop_missing:
  "find (\<lambda>f. fs s f = None) fl = Some f \<Longrightarrow>
   py_for fl (\<lambda>file. py_then (os_path_exists file) (\<lambda>ex.
       if \<not> ex then error (msg_missing_file @ file) else py_return ())) s =
     (Inl (SystemExit 1), s\<lparr>printed_err := printed_err s @ [msg_error @ msg_missing_file @ f]\<rparr>)"
  by (induction fl)
     (auto simp: py_then_def os_path_exists_def error_def print_stderr_def sys_exit_def
        py_raise_def py_return_def)

lemma check_loop_ok:
  "find (\<lambda>f. fs s f = None) fl = None \<Longrightarrow>
   py_for fl (\<lambda>file. py_then (os_path_exists file) (\<lambda>ex.
       if \<not> ex then error (msg_missing_file @ file) else py_return ())) s = (Inr (), s)"
  by (induction fl)
     (auto simp: py_then_def os_path_exists_def py_return_def)

lemma server_cert_missing:
  assumes "find (\<lambda>f. fs s f = None) (required_files domain) = Some f"
  shows "generate_server_cert P domain s =
     (Inl (SystemExit 1),
      s\<lparr>printed := printed s @ [msg_server_begin1 @ domain @ msg_server_begin2],
        printed_err := printed_err s @ [msg_error @ msg_missing_file @ f]\<rparr>)"
proof -
  let ?s1 = "s\<lparr>printed := printed s @ [msg_server_begin1 @ domain @ msg_server_begin2]\<rparr>"
  have "find (\<lambda>f. fs ?s1 f = None) (required_files domain) = Some f"
    using assms by simp
  from check_loop_missing [OF this] show ?thesis
    by (simp add: generate_server_cert_def py_then_def print_def)
qed

lemma first_missing_without_ca:
  "find (\<lambda>f. fs (initial_state files_without_ca n) f = None) (required_files ''example.com'')
     = Some ''ca/ca.key''"
  by (simp add: initial_state_def files_without_ca_def required_files_def)

text \<open>
  Claim C1, as the script has it. When one of the six required files (the base template,
  the leaf-extensions template, the SAN block and the subject line of the domain, the CA
  key, the CA certificate) is absent, \<^verbatim>\<open>generate_server_cert\<close> ends with
  \<^verbatim>\<open>sys.exit(1)\<close> after one diagnostic that names the first absent file in that order.
  Nothing else has happened by then: no command was run and no file was touched; the
  state differs from the one before the call only in what was printed.
\<close>

theorem missing_prerequisite_first:
  assumes "find (\<lambda>f. fs s f = None) (required_files domain) = Some f"
  shows "generate_server_cert P domain s =
     (Inl (SystemExit 1),
      s\<lparr>printed := printed s @ [msg_server_begin1 @ domain @ msg_server_begin2],
        printed_err := printed_err s @ [msg_error @ msg_missing_file @ f]\<rparr>)"
  using assms by (rule server_cert_missing)

theorem missing_prerequisite_first_witness:
  "find (\<lambda>f. fs (initial_state files_without_ca (0::nat)) f = None) (required_files ''example.com'')
     = Some ''ca/ca.key''
   \<and> generate_server_cert (stub_platform []) ''example.com'' (initial_state files_without_ca 0) =
     (Inl (SystemExit 1),
      (initial_state files_without_ca 0)
        \<lparr>printed := [msg_server_begin1 @ ''example.com'' @ msg_server_begin2],
         printed_err := [msg_error @ msg_missing_file @ ''ca/ca.key'']\<rparr>)"
  using missing_prerequisite_first [OF first_missing_without_ca [of 0], of "stub_platform []"]
    first_missing_without_ca [of 0]
  by (simp add: initial_state_def)

text \<open>
  The claim as it was stated asks for a diagnostic that lists every absent file. With
  both the CA key and the CA certificate absent, the certificate is a required file that
  is not there, and the only diagnostic names the key and does not mention the
  certificate.
\<close>

theorem missing_prerequisite_all_counterexample:
  "fs (initial_state files_without_ca (0::nat)) ''ca/ca.crt'' = None
   \<and> ''ca/ca.crt'' \<in> set (required_files ''example.com'')
   \<and> printed_err (snd (generate_server_cert (stub_platform []) ''example.com''
        (initial_state files_without_ca 0))) = [msg_error @ msg_missing_file @ ''ca/ca.key'']
   \<and> \<not> sublist ''ca/ca.crt'' (msg_error @ msg_missing_file @ ''ca/ca.key'')"
proof -
  have a: "fs (initial_state files_without_ca (0::nat)) ''ca/ca.crt'' = None"
    by (simp add: initial_state_def files_without_ca_def)
  have b: "''ca/ca.crt'' \<in> set (required_files ''example.com'')"
    by (simp add: required_files_def)
  have c: "printed_err (snd (generate_server_cert (stub_platform []) ''example.com''
        (initial_state files_without_ca 0))) = [msg_error @ msg_missing_file @ ''ca/ca.key'']"
    unfolding server_cert_missing [OF first_missing_without_ca]
    by (simp add: initial_state_def)
  have d: "\<not> sublist ''ca/ca.crt'' (msg_error @ msg_missing_file @ ''ca/ca.key'')"
    by (simp add: msg_error_def msg_missing_file_def sublist_Cons_right)
  from a b c d show ?thesis by blast
qed

section \<open>The configuration files\<close>

text \<open>
  One block \<^verbatim>\<open>if not os.path.exists(p): ... f.write(c)\<close> returns normally and adds the
  file only where there was none.
\<close>

lemma write_if_absent:
  "fst (py_then (os_path_exists p) (\<lambda>ex. if \<not> ex then write_file p c else py_return ()) s) = Inr ()
   \<and> fs (snd (py_then (os_path_exists p)
               (\<lambda>ex. if \<not> ex then write_file p c else py_return ()) s)) = [p \<mapsto> c] ++ fs s"
  by (auto simp: py_then_def os_path_exists_def write_file_def py_return_def map_add_def
        fun_eq_iff split: option.splits)

lemma py_then_unit:
  "fst (m s) = Inr () \<Longrightarrow> py_then m f s = f () (snd (m s))"
  by (cases "m s") (simp add: py_then_def)

lemma default_config_files:
  "fst (create_default_config_files domain s) = Inr ()
   \<and> fs (snd (create_default_config_files domain s)) = map_of (default_files domain) ++ fs s"
proof -
  define E :: "string \<Rightarrow> string \<Rightarrow> ('a, unit) py" where
    "E = (\<lambda>p c. py_then (os_path_exists p) (\<lambda>ex. if \<not> ex then write_file p c else py_return ()))"
  have cd: "create_default_config_files domain =
      py_then (os_makedirs ''ca'') (\<lambda>_.
      py_then (E ''ca/openssl.cnf'' openssl_cnf) (\<lambda>_.
      py_then (E ''ca/v3_ca.cnf'' v3_ca_cnf) (\<lambda>_.
      py_then (E ''ca/v3_req.cnf'' v3_req_cnf) (\<lambda>_.
      py_then (E (''ca/'' @ domain @ ''.cnf'') (domain_cnf domain)) (\<lambda>_.
      E (''ca/'' @ domain @ ''.subj'') (domain_subj domain))))))"
    unfolding E_def create_default_config_files_def by (rule refl)
  have E1: "fst (E p c t) = Inr ()" and E2: "fs (snd (E p c t)) = [p \<mapsto> c] ++ fs t" for p c t
    unfolding E_def using write_if_absent [of p c t] by simp_all
  have mk: "fst (os_makedirs ''ca'' s) = Inr ()" "fs (snd (os_makedirs ''ca'' s)) = fs s"
    by (simp_all add: os_makedirs_def)
  have res: "fst (create_default_config_files domain s) = Inr ()"
    unfolding cd by (simp add: py_then_unit mk E1)
  have "fs (snd (create_default_config_files domain s)) =
      [''ca/'' @ domain @ ''.subj'' \<mapsto> domain_subj domain] ++
      ([''ca/'' @ domain @ ''.cnf'' \<mapsto> domain_cnf domain] ++
       ([''ca/v3_req.cnf'' \<mapsto> v3_req_cnf] ++
        ([''ca/v3_ca.cnf'' \<mapsto> v3_ca_cnf] ++
         ([''ca/openssl.cnf'' \<mapsto> openssl_cnf] ++ fs s))))"
    unfolding cd by (simp add: py_then_unit mk E1 E2)
  also have "\<dots> = map_of (default_files domain) ++ fs s"
    unfolding default_files_def
    by (rule ext) (simp add: map_add_def split: option.splits)
  finally show ?thesis using res by simp
qed

text \<open>
  Claim C2. \<^verbatim>\<open>create_default_config_files\<close> returns normally; a file that exists is
  left as it is, and each of the five paths that names no file gets its default contents
  (the map of \<open>default_files\<close>, overridden by the files that were there). A second
  run therefore leaves every file as the first run left it.
\<close>

theorem config_materialization_idempotent:
  "fst (create_default_config_files domain s) = Inr ()
   \<and> fs (snd (create_default_config_files domain s)) = map_of (default_files domain) ++ fs s
   \<and> fs (snd (create_default_config_files domain (snd (create_default_config_files domain s))))
       = fs (snd (create_default_config_files domain s))"
proof -
  have "m ++ (m ++ f) = m ++ f" for m f :: files
    by (simp add: map_add_def fun_eq_iff split: option.splits)
  then show ?thesis by (simp add: default_config_files)
qed

section \<open>The certificate authority\<close>

text \<open>
  \<^verbatim>\<open>generate_ca_cert\<close> in terms of what the shell answers to its two commands.
\<close>

lemma generate_ca_cert_eq:
  "generate_ca_cert P s =
     (case shell P ca_key_command (fs s) (world s) of
        (r1, f1, w1) \<Rightarrow>
          if returncode r1 \<noteq> 0
          then (Inl (SystemExit 1),
                s\<lparr>fs := f1, world := w1,
                  printed := printed s @ [msg_ca_begin, msg_run @ ca_key_command],
                  printed_err := printed_err s @
                    [msg_error @ msg_command_failed @ ca_key_command @ ''\<newline>'' @ stderr r1],
                  trace := trace s @ [Exec ca_key_command]\<rparr>)
          else
            (case shell P ca_cert_command f1 w1 of
               (r2, f2, w2) \<Rightarrow>
                 if returncode r2 \<noteq> 0
                 then (Inl (SystemExit 1),
                       s\<lparr>fs := f2, world := w2,
                         printed := printed s @
                           [msg_ca_begin, msg_run @ ca_key_command, msg_run @ ca_cert_command],
                         printed_err := printed_err s @
                           [msg_error @ msg_command_failed @ ca_cert_command @ ''\<newline>'' @ stderr r2],
                         trace := trace s @ [Exec ca_key_command, Exec ca_cert_command]\<rparr>)
                 else (Inr (),
                       s\<lparr>fs := f2, world := w2,
                         printed := printed s @
                           [msg_ca_begin, msg_run @ ca_key_command, msg_run @ ca_cert_command,
                            msg_ca_done],
                         trace := trace s @ [Exec ca_key_command, Exec ca_cert_command]\<rparr>)))"
  by (simp add: generate_ca_cert_def py_then_def print_def run_command_eq split: prod.splits)

lemma stub_ca_key:
  "shell (stub_platform []) ca_key_command f n =
     (\<lparr>returncode = 0, stdout = [], stderr = []\<rparr>,
      f(''ca/ca.key'' \<mapsto> replicate (Suc n) (CHR ''#'')), Suc n)"
  by (simp add: stub_platform_def stub_shell_def ca_key_command_def)

lemma stub_ca_cert:
  "shell (stub_platform []) ca_cert_command f n =
     (\<lparr>returncode = 0, stdout = [], stderr = []\<rparr>,
      f(''ca/ca.crt'' \<mapsto> replicate (Suc n) (CHR ''#'')), Suc n)"
  by (simp add: stub_platform_def stub_shell_def ca_cert_command_def)

lemma ca_rotation:
  "fs (snd (generate_ca_cert (stub_platform [])
        (snd (generate_ca_cert (stub_platform []) (initial_state files_with_old_ca 0)))))
     ''ca/ca.key'' = Some ''###''"
  by (simp add: generate_ca_cert_eq stub_ca_key stub_ca_cert initial_state_def numeral_3_eq_3)

lemma ca_trace:
  "trace (snd (generate_ca_cert P s)) = trace s @ [Exec ca_key_command]
   \<or> trace (snd (generate_ca_cert P s)) = trace s @ [Exec ca_key_command, Exec ca_cert_command]"
  by (simp add: generate_ca_cert_eq split: prod.splits)

lemma ca_cert_command_plain:
  "\<not> sublist ''-config'' ca_cert_command \<and> \<not> sublist ''-extensions'' ca_cert_command
   \<and> \<not> sublist ''-addext'' ca_cert_command \<and> \<not> sublist ''-extfile'' ca_cert_command
   \<and> \<not> sublist ''basicConstraints'' ca_cert_command \<and> \<not> sublist ''keyUsage'' ca_cert_command
   \<and> \<not> sublist ''v3_ca'' ca_cert_command"
  by (simp add: ca_cert_command_def sublist_Cons_right)

lemma ca_key_command_plain:
  "\<not> sublist ''-config'' ca_key_command \<and> \<not> sublist ''v3_ca'' ca_key_command"
  by (simp add: ca_key_command_def sublist_Cons_right)

text \<open>
  Claim C3. \<^verbatim>\<open>generate_ca_cert\<close> does not look at the files: in every state, also
  when \<^verbatim>\<open>ca/ca.key\<close> and \<^verbatim>\<open>ca/ca.crt\<close> exist, it runs the key generation and then the
  certificate generation, and when both succeed the files afterwards are those that the
  second command left. Nothing is skipped and nothing of the old authority is put back.
\<close>

theorem ca_issuance_unconditional:
  assumes "shell P ca_key_command (fs s) (world s) = (r1, f1, w1)" and "returncode r1 = 0"
    and "shell P ca_cert_command f1 w1 = (r2, f2, w2)" and "returncode r2 = 0"
  shows "generate_ca_cert P s =
     (Inr (),
      s\<lparr>fs := f2, world := w2,
        printed := printed s @
          [msg_ca_begin, msg_run @ ca_key_command, msg_run @ ca_cert_command, msg_ca_done],
        trace := trace s @ [Exec ca_key_command, Exec ca_cert_command]\<rparr>)"
  using assms by (simp add: generate_ca_cert_eq)

text \<open>
  With the stand-in environment and an authority already on disk, the run replaces both
  files; a second run replaces the key again with another one.
\<close>

theorem ca_issuance_unconditional_witness:
  "fs (initial_state files_with_old_ca (0::nat)) ''ca/ca.key'' = Some ''old key''
   \<and> fs (initial_state files_with_old_ca (0::nat)) ''ca/ca.crt'' = Some ''old certificate''
   \<and> generate_ca_cert (stub_platform []) (initial_state files_with_old_ca 0) =
      (Inr (),
       (initial_state files_with_old_ca 0)
         \<lparr>fs := files_with_old_ca(''ca/ca.key'' \<mapsto> ''#'', ''ca/ca.crt'' \<mapsto> ''##''),
          world := 2,
          printed := [msg_ca_begin, msg_run @ ca_key_command, msg_run @ ca_cert_command, msg_ca_done],
          trace := [Exec ca_key_command, Exec ca_cert_command]\<rparr>)
   \<and> fs (snd (generate_ca_cert (stub_platform [])
        (snd (generate_ca_cert (stub_platform []) (initial_state files_with_old_ca 0)))))
       ''ca/ca.key'' = Some ''###''"
proof -
  let ?s = "initial_state files_with_old_ca (0::nat)"
  have k: "shell (stub_platform []) ca_key_command (fs ?s) (world ?s) =
      (\<lparr>returncode = 0, stdout = [], stderr = []\<rparr>, files_with_old_ca(''ca/ca.key'' \<mapsto> ''#''), 1)"
    by (simp add: stub_ca_key initial_state_def)
  have c: "shell (stub_platform []) ca_cert_command (files_with_old_ca(''ca/ca.key'' \<mapsto> ''#'')) 1 =
      (\<lparr>returncode = 0, stdout = [], stderr = []\<rparr>,
       files_with_old_ca(''ca/ca.key'' \<mapsto> ''#'', ''ca/ca.crt'' \<mapsto> ''##''), 2)"
    by (simp add: stub_ca_cert numeral_2_eq_2)
  have "generate_ca_cert (stub_platform []) ?s = (Inr (),
      ?s\<lparr>fs := files_with_old_ca(''ca/ca.key'' \<mapsto> ''#'', ''ca/ca.crt'' \<mapsto> ''##''), world := 2,
        printed := printed ?s @
          [msg_ca_begin, msg_run @ ca_key_command, msg_run @ ca_cert_command, msg_ca_done],
        trace := trace ?s @ [Exec ca_key_command, Exec ca_cert_command]\<rparr>)"
    by (rule ca_issuance_unconditional [OF k _ c]) simp_all
  then show ?thesis
    using ca_rotation by (simp add: initial_state_def files_with_old_ca_def)
qed

text \<open>
  Claim C4, as the script has it. The certificate of the authority is built by the one
  command \<^verbatim>\<open>openssl req -new -x509 -days 36500 -key ca/ca.key -out ca/ca.crt -subj ...\<close>
  with the fixed subject. \<^verbatim>\<open>generate_ca_cert\<close> runs this command and the key generation
  and nothing else, and the command names no configuration file, no extension section and
  no extension: which basic constraints and key usage the certificate gets is left to the
  defaults of the engine.
\<close>

theorem ca_certificate_command_has_no_profile:
  "(trace (snd (generate_ca_cert P s)) = trace s @ [Exec ca_key_command]
    \<or> trace (snd (generate_ca_cert P s)) = trace s @ [Exec ca_key_command, Exec ca_cert_command])
   \<and> ca_cert_command =
       ''openssl req -new -x509 -days 36500 -key ca/ca.key -out ca/ca.crt -subj '' @ [CHR 0x22] @
       ''/C=CN/ST=State/L=City/O=TraeProxy CA/OU=TraeProxy/CN=TraeProxy Root CA'' @ [CHR 0x22]
   \<and> \<not> sublist ''-config'' ca_cert_command \<and> \<not> sublist ''-extensions'' ca_cert_command
   \<and> \<not> sublist ''-addext'' ca_cert_command \<and> \<not> sublist ''-extfile'' ca_cert_command
   \<and> \<not> sublist ''basicConstraints'' ca_cert_command \<and> \<not> sublist ''keyUsage'' ca_cert_command"
  using ca_trace [of P s] ca_cert_command_plain by (simp add: ca_cert_command_def)

text \<open>
  The claim as it was stated has the issuing operation supply the profile with
  \<^verbatim>\<open>CA:true\<close>, critical, and the key usage. In a run where the template
  \<^verbatim>\<open>ca/v3_ca.cnf\<close> with that profile is on disk, the two commands that are run neither
  name the template or its section nor carry the extensions.
\<close>

theorem ca_profile_supplied_counterexample:
  "fs (initial_state files_with_old_ca (0::nat)) ''ca/v3_ca.cnf'' = Some v3_ca_cnf
   \<and> trace (snd (generate_ca_cert (stub_platform []) (initial_state files_with_old_ca 0))) =
       [Exec ca_key_command, Exec ca_cert_command]
   \<and> \<not> sublist ''v3_ca'' ca_key_command \<and> \<not> sublist ''v3_ca'' ca_cert_command
   \<and> \<not> sublist ''-config'' ca_key_command \<and> \<not> sublist ''-config'' ca_cert_command
   \<and> \<not> sublist ''-extensions'' ca_cert_command
   \<and> \<not> sublist ''basicConstraints'' ca_cert_command \<and> \<not> sublist ''keyUsage'' ca_cert_command"
proof -
  have "fs (initial_state files_with_old_ca (0::nat)) ''ca/v3_ca.cnf'' = Some v3_ca_cnf"
    by (simp add: initial_state_def files_with_old_ca_def default_files_def)
  moreover have "trace (snd (generate_ca_cert (stub_platform []) (initial_state files_with_old_ca 0))) =
       [Exec ca_key_command, Exec ca_cert_command]"
    by (simp add: generate_ca_cert_eq stub_ca_key stub_ca_cert initial_state_def)
  ultimately show ?thesis
    using ca_cert_command_plain ca_key_command_plain by simp
qed

section \<open>The server certificate\<close>

text \<open>
  \<^verbatim>\<open>create_temp_file\<close> creates the file with the contents, records its path in
  \<^verbatim>\<open>temp_files\<close> and returns the path.
\<close>

lemma create_temp_file_eq:
  "create_temp_file P content s =
     (case mkstemp P (fs s) (world s) of
        (path, w') \<Rightarrow>
          (Inr path,
           s\<lparr>fs := (fs s)(path \<mapsto> content), world := w',
             temp_files := temp_files s @ [path],
             trace := trace s @ [Mkstemp path, Write path content]\<rparr>))"
  by (simp add: create_temp_file_def py_then_def tempfile_mkstemp_def os_write_def py_return_def
        split: prod.splits)

lemma required_present:
  "find (\<lambda>f. fs s f = None) (required_files domain) = None \<longleftrightarrow>
     fs s ''ca/openssl.cnf'' \<noteq> None \<and> fs s ''ca/v3_req.cnf'' \<noteq> None
     \<and> fs s (''ca/'' @ domain @ ''.cnf'') \<noteq> None \<and> fs s (''ca/'' @ domain @ ''.subj'') \<noteq> None
     \<and> fs s ''ca/ca.key'' \<noteq> None \<and> fs s ''ca/ca.crt'' \<noteq> None"
  by (auto simp: required_files_def)

text \<open>When all required files are there, the check changes nothing and the rest runs.\<close>

lemma server_cert_issue:
  assumes "find (\<lambda>f. fs s f = None) (required_files domain) = None"
  shows "generate_server_cert P domain s =
     issue P domain (s\<lparr>printed := printed s @ [msg_server_begin1 @ domain @ msg_server_begin2]\<rparr>)"
proof -
  let ?s1 = "s\<lparr>printed := printed s @ [msg_server_begin1 @ domain @ msg_server_begin2]\<rparr>"
  have "find (\<lambda>f. fs ?s1 f = None) (required_files domain) = None"
    using assms by simp
  from check_loop_ok [OF this] show ?thesis
    unfolding generate_server_cert_def issue_def
    by (simp add: py_then_def [where m = "print _"] py_then_def [where m = "py_for _ _"] print_def)
qed

text \<open>
  The run of the steps when the commands up to the signing request succeed: the signing
  decides between the exit with the diagnostic and the removal of the request.
\<close>

lemma issue_success:
  assumes files: "fs s ''ca/openssl.cnf'' = Some a" "fs s ''ca/v3_req.cnf'' = Some b"
      "fs s (''ca/'' @ domain @ ''.cnf'') = Some c" "fs s (''ca/'' @ domain @ ''.subj'') = Some d"
    and tmp: "mkstemp P (fs s) (world s) = (tmp, w0)"
    and key: "shell P (leaf_key_command domain)
                ((fs s)(tmp \<mapsto> a @ ''\<newline>'' @ b @ ''\<newline>'' @ c)) w0 = (r1, f1, w1)"
      "returncode r1 = 0"
    and p8: "shell P (pkcs8_command domain) f1 w1 = (r2, f2, w2)" "returncode r2 = 0"
      "f2 (''ca/'' @ domain @ ''.key.pkcs8'') = Some k"
    and csr: "shell P (csr_command domain tmp (strip d))
                ((f2(''ca/'' @ domain @ ''.key'' \<mapsto> k))(''ca/'' @ domain @ ''.key.pkcs8'' := None)) w2
              = (r3, f3, w3)" "returncode r3 = 0"
    and sign: "shell P (sign_command domain tmp) f3 w3 = (r4, f4, w4)"
  shows "issue P domain s =
     (if returncode r4 \<noteq> 0
      then (Inl (SystemExit 1),
            s\<lparr>fs := f4, world := w4, temp_files := temp_files s @ [tmp],
              printed := printed s @
                [msg_run @ leaf_key_command domain, msg_run @ pkcs8_command domain,
                 msg_run @ csr_command domain tmp (strip d), msg_run @ sign_command domain tmp],
              printed_err := printed_err s @
                [msg_error @ msg_command_failed @ sign_command domain tmp @ ''\<newline>'' @ stderr r4],
              trace := trace s @
                [Mkstemp tmp, Write tmp (a @ ''\<newline>'' @ b @ ''\<newline>'' @ c),
                 Exec (leaf_key_command domain), Exec (pkcs8_command domain),
                 Move (''ca/'' @ domain @ ''.key.pkcs8'') (''ca/'' @ domain @ ''.key''),
                 Exec (csr_command domain tmp (strip d)), Exec (sign_command domain tmp)]\<rparr>)
      else if f4 (''ca/'' @ domain @ ''.csr'') = None
      then (Inl (FileNotFoundError (''ca/'' @ domain @ ''.csr'')),
            s\<lparr>fs := f4, world := w4, temp_files := temp_files s @ [tmp],
              printed := printed s @
                [msg_run @ leaf_key_command domain, msg_run @ pkcs8_command domain,
                 msg_run @ csr_command domain tmp (strip d), msg_run @ sign_command domain tmp],
              trace := trace s @
                [Mkstemp tmp, Write tmp (a @ ''\<newline>'' @ b @ ''\<newline>'' @ c),
                 Exec (leaf_key_command domain), Exec (pkcs8_command domain),
                 Move (''ca/'' @ domain @ ''.key.pkcs8'') (''ca/'' @ domain @ ''.key''),
                 Exec (csr_command domain tmp (strip d)), Exec (sign_command domain tmp),
                 Unlink (''ca/'' @ domain @ ''.csr'')]\<rparr>)
      else (Inr (),
            s\<lparr>fs := f4(''ca/'' @ domain @ ''.csr'' := None), world := w4,
              temp_files := temp_files s @ [tmp],
              printed := printed s @
                [msg_run @ leaf_key_command domain, msg_run @ pkcs8_command domain,
                 msg_run @ csr_command domain tmp (strip d), msg_run @ sign_command domain tmp,
                 msg_server_done @ domain @ ''.crt''],
              trace := trace s @
                [Mkstemp tmp, Write tmp (a @ ''\<newline>'' @ b @ ''\<newline>'' @ c),
                 Exec (leaf_key_command domain), Exec (pkcs8_command domain),
                 Move (''ca/'' @ domain @ ''.key.pkcs8'') (''ca/'' @ domain @ ''.key''),
                 Exec (csr_command domain tmp (strip d)), Exec (sign_command domain tmp),
                 Unlink (''ca/'' @ domain @ ''.csr'')]\<rparr>))"
  using assms
  by (simp add: issue_def py_then_def read_file_def py_return_def create_temp_file_eq
        run_command_eq shutil_move_def os_remove_def os_unlink_def print_def)


text \<open>The stand-in shell on the commands of the server certificate.\<close>

lemma stub_accepts:
  assumes "after_flag ''-out '' c = Some rest" and "takeWhile (\<lambda>c. c \<noteq> CHR '' '') rest = p"
    and "fl = [] \<or> \<not> prefix fl c"
  shows "shell (stub_platform fl) c f n =
     (\<lparr>returncode = 0, stdout = [], stderr = []\<rparr>, f(p \<mapsto> replicate (Suc n) (CHR ''#'')), Suc n)"
  using assms by (auto simp: stub_platform_def stub_shell_def)

lemma stub_refuses:
  assumes "fl \<noteq> []" and "prefix fl c"
  shows "shell (stub_platform fl) c f n =
     (\<lparr>returncode = 1, stdout = [], stderr = ''failure''\<rparr>, f, n)"
  using assms by (simp add: stub_platform_def stub_shell_def)

lemma out_leaf_key:
  "after_flag ''-out '' (leaf_key_command ''example.com'') = Some ''ca/example.com.key 2048''"
  by (simp add: leaf_key_command_def)

lemma out_pkcs8:
  "after_flag ''-out '' (pkcs8_command ''example.com'') = Some ''ca/example.com.key.pkcs8''"
  by (simp add: pkcs8_command_def)

lemma out_csr:
  "after_flag ''-out '' (csr_command ''example.com'' tmp subj) =
     Some (''ca/example.com.csr -config '' @ tmp @ '' -subj '' @ [CHR 0x22] @ subj @ [CHR 0x22])"
  by (simp add: csr_command_def)

lemma out_sign:
  "after_flag ''-out '' (sign_command ''example.com'' tmp) =
     Some (''ca/example.com.crt -extfile '' @ tmp @ '' -extensions v3_req'')"
  by (simp add: sign_command_def)

lemma not_x509:
  "\<not> prefix ''openssl x509'' (leaf_key_command d)" "\<not> prefix ''openssl x509'' (pkcs8_command d)"
  "\<not> prefix ''openssl x509'' (csr_command d t u)" "prefix ''openssl x509'' (sign_command d t)"
  by (simp_all add: leaf_key_command_def pkcs8_command_def csr_command_def sign_command_def)

text \<open>
  The steps in the stand-in environment, on the default configuration with an authority:
  every command is accepted, or the signing is refused.
\<close>

lemma stub_issue:
  assumes fl: "fl = [] \<or> fl = ''openssl x509''"
  shows "issue (stub_platform fl) ''example.com''
           ((initial_state files_with_old_ca 0)\<lparr>printed := pr\<rparr>) =
     (if fl \<noteq> []
      then (Inl (SystemExit 1),
            (initial_state files_with_old_ca 0)
              \<lparr>fs := files_with_old_ca
                  (''/tmp/tmp'' \<mapsto> merged0,
                   ''ca/example.com.key'' \<mapsto> ''###'',
                   ''ca/example.com.key.pkcs8'' := None,
                   ''ca/example.com.csr'' \<mapsto> ''####''),
               world := 4, temp_files := [''/tmp/tmp''],
               printed := pr @
                 [msg_run @ leaf_key_command ''example.com'', msg_run @ pkcs8_command ''example.com'',
                  msg_run @ csr_command ''example.com'' ''/tmp/tmp'' subj0,
                  msg_run @ sign_command ''example.com'' ''/tmp/tmp''],
               printed_err :=
                 [msg_error @ msg_command_failed @ sign_command ''example.com'' ''/tmp/tmp'' @
                    ''\<newline>'' @ ''failure''],
               trace := butlast steps0\<rparr>)
      else (Inr (),
            (initial_state files_with_old_ca 0)
              \<lparr>fs := files_with_old_ca
                  (''/tmp/tmp'' \<mapsto> merged0,
                   ''ca/example.com.key'' \<mapsto> ''###'',
                   ''ca/example.com.key.pkcs8'' := None,
                   ''ca/example.com.csr'' \<mapsto> ''####'',
                   ''ca/example.com.crt'' \<mapsto> ''#####'',
                   ''ca/example.com.csr'' := None),
               world := 5, temp_files := [''/tmp/tmp''],
               printed := pr @
                 [msg_run @ leaf_key_command ''example.com'', msg_run @ pkcs8_command ''example.com'',
                  msg_run @ csr_command ''example.com'' ''/tmp/tmp'' subj0,
                  msg_run @ sign_command ''example.com'' ''/tmp/tmp'',
                  msg_server_done @ ''example.com'' @ ''.crt''],
               trace := steps0\<rparr>))"
proof -
  let ?P = "stub_platform fl"
  let ?s = "(initial_state files_with_old_ca (0::nat))\<lparr>printed := pr\<rparr>"
  let ?ok = "\<lparr>returncode = 0, stdout = [], stderr = []\<rparr>"
  let ?f0 = "files_with_old_ca(''/tmp/tmp'' \<mapsto> merged0)"
  let ?f1 = "?f0(''ca/example.com.key'' \<mapsto> ''##'')"
  let ?f2 = "?f1(''ca/example.com.key.pkcs8'' \<mapsto> ''###'')"
  let ?f2' = "(?f2(''ca/example.com.key'' \<mapsto> ''###''))(''ca/example.com.key.pkcs8'' := None)"
  let ?f3 = "?f2'(''ca/example.com.csr'' \<mapsto> ''####'')"
  let ?f4 = "?f3(''ca/example.com.crt'' \<mapsto> ''#####'')"
  have files: "fs ?s ''ca/openssl.cnf'' = Some openssl_cnf" "fs ?s ''ca/v3_req.cnf'' = Some v3_req_cnf"
      "fs ?s (''ca/'' @ ''example.com'' @ ''.cnf'') = Some (domain_cnf ''example.com'')"
      "fs ?s (''ca/'' @ ''example.com'' @ ''.subj'') = Some (domain_subj ''example.com'')"
    by (simp_all add: initial_state_def files_with_old_ca_def default_files_def)
  have tmp: "mkstemp ?P (fs ?s) (world ?s) = (''/tmp/tmp'', 1)"
    by (simp add: stub_platform_def initial_state_def)
  have no: "fl = [] \<or> \<not> prefix fl (leaf_key_command ''example.com'')"
      "fl = [] \<or> \<not> prefix fl (pkcs8_command ''example.com'')"
      "fl = [] \<or> \<not> prefix fl (csr_command ''example.com'' ''/tmp/tmp'' (strip (domain_subj ''example.com'')))"
    using fl not_x509 by auto
  have key: "shell ?P (leaf_key_command ''example.com'')
      ((fs ?s)(''/tmp/tmp'' \<mapsto> openssl_cnf @ ''\<newline>'' @ v3_req_cnf @ ''\<newline>'' @ domain_cnf ''example.com'')) 1
      = (?ok, ?f1, 2)"
    by (subst stub_accepts [OF out_leaf_key _ no(1)])
       (simp_all add: initial_state_def merged0_def eval_nat_numeral)
  have p8: "shell ?P (pkcs8_command ''example.com'') ?f1 2 = (?ok, ?f2, 3)"
    by (subst stub_accepts [OF out_pkcs8 _ no(2)]) (simp_all add: eval_nat_numeral)
  have k: "?f2 (''ca/'' @ ''example.com'' @ ''.key.pkcs8'') = Some ''###''" by simp
  have csr: "shell ?P (csr_command ''example.com'' ''/tmp/tmp'' (strip (domain_subj ''example.com'')))
      ((?f2(''ca/'' @ ''example.com'' @ ''.key'' \<mapsto> ''###''))(''ca/'' @ ''example.com'' @ ''.key.pkcs8'' := None)) 3
      = (?ok, ?f3, 4)"
    by (subst stub_accepts [OF out_csr _ no(3)]) (simp_all add: eval_nat_numeral)
  show ?thesis
  proof (cases "fl = []")
    case True
    have sign: "shell ?P (sign_command ''example.com'' ''/tmp/tmp'') ?f3 4 = (?ok, ?f4, 5)"
      by (subst stub_accepts [OF out_sign]) (simp_all add: eval_nat_numeral True)
    show ?thesis
      unfolding issue_success [OF files tmp key _ p8 _ k csr _ sign, simplified]
      using True by (simp add: initial_state_def steps0_def subj0_def merged0_def)
  next
    case False
    then have "fl = ''openssl x509''" using fl by simp
    then have sign: "shell ?P (sign_command ''example.com'' ''/tmp/tmp'') ?f3 4 =
        (\<lparr>returncode = 1, stdout = [], stderr = ''failure''\<rparr>, ?f3, 4)"
      using stub_refuses [OF False, of "sign_command ''example.com'' ''/tmp/tmp''"] not_x509(4)
      by simp
    show ?thesis
      unfolding issue_success [OF files tmp key _ p8 _ k csr _ sign, simplified]
      using False by (simp add: initial_state_def steps0_def subj0_def merged0_def)
  qed
qed


lemma stub_present:
  "find (\<lambda>f. fs (initial_state files_with_old_ca n) f = None) (required_files ''example.com'') = None"
  by (simp add: initial_state_def files_with_old_ca_def default_files_def required_files_def)

lemma stub_server_cert:
  "generate_server_cert (stub_platform fl) ''example.com'' (initial_state files_with_old_ca 0) =
     issue (stub_platform fl) ''example.com''
       ((initial_state files_with_old_ca 0)
          \<lparr>printed := [msg_server_begin1 @ ''example.com'' @ msg_server_begin2]\<rparr>)"
  by (simp add: server_cert_issue [OF stub_present]) (simp add: initial_state_def)

text \<open>
  Whatever the commands answer, the calls of the steps begin with the creation of the
  temporary file and the generation of the key and are an initial part of the calls of a
  complete run; the temporary file is the one path added to \<^verbatim>\<open>temp_files\<close>.
\<close>

lemma issue_trace_bounds:
  assumes "fs s ''ca/openssl.cnf'' = Some a" "fs s ''ca/v3_req.cnf'' = Some b"
      "fs s (''ca/'' @ domain @ ''.cnf'') = Some c" "fs s (''ca/'' @ domain @ ''.subj'') = Some d"
    and "mkstemp P (fs s) (world s) = (tmp, w0)"
  shows "prefix (trace s @ [Mkstemp tmp, Write tmp (a @ ''\<newline>'' @ b @ ''\<newline>'' @ c),
                           Exec (leaf_key_command domain)])
           (trace (snd (issue P domain s)))
     \<and> prefix (trace (snd (issue P domain s)))
          (trace s @ [Mkstemp tmp, Write tmp (a @ ''\<newline>'' @ b @ ''\<newline>'' @ c),
                      Exec (leaf_key_command domain), Exec (pkcs8_command domain),
                      Move (''ca/'' @ domain @ ''.key.pkcs8'') (''ca/'' @ domain @ ''.key''),
                      Exec (csr_command domain tmp (strip d)), Exec (sign_command domain tmp),
                      Unlink (''ca/'' @ domain @ ''.csr'')])
     \<and> temp_files (snd (issue P domain s)) = temp_files s @ [tmp]"
  using assms
  by (auto simp: issue_def py_then_def read_file_def py_return_def create_temp_file_eq
        run_command_eq shutil_move_def os_remove_def os_unlink_def print_def
        split: option.splits prod.splits if_splits)

text \<open>
  A run of the steps whose last call is the signing command has ended in the exit after
  the failed signing, and has not removed the signing request.
\<close>

lemma not_sign_command:
  "leaf_key_command d \<noteq> sign_command d' t'" "pkcs8_command d \<noteq> sign_command d' t'"
  "csr_command d t u \<noteq> sign_command d' t'"
  by (simp_all add: leaf_key_command_def pkcs8_command_def csr_command_def sign_command_def)

lemma issue_aborts_at_sign:
  assumes "issue P domain s = (r, s')"
    and "trace s' = trace s @ evs @ [Exec (sign_command domain t)]"
  shows "r = Inl (SystemExit 1)
     \<and> Unlink (''ca/'' @ domain @ ''.csr'') \<notin> set evs
     \<and> temp_files s' = temp_files s @ [fst (mkstemp P (fs s) (world s))]"
  using assms
  by (auto simp: issue_def py_then_def read_file_def py_return_def create_temp_file_eq
        run_command_eq shutil_move_def os_remove_def os_unlink_def print_def
        not_sign_command
        split: option.splits prod.splits if_splits)



section \<open>The days that the commands ask for\<close>



section \<open>The merged profile\<close>

text \<open>
  The merged profile of the example is not the three files one after another, and the two
  commands that read the profile name the temporary file.
\<close>

lemma merged0_not_plain: "merged0 \<noteq> openssl_cnf @ v3_req_cnf @ domain_cnf ''example.com''"
proof
  assume "merged0 = openssl_cnf @ v3_req_cnf @ domain_cnf ''example.com''"
  then have "length merged0 = length (openssl_cnf @ v3_req_cnf @ domain_cnf ''example.com'')"
    by simp
  then show False by (simp add: merged0_def)
qed

lemma config_option:
  "sublist (''-config '' @ tmp) (csr_command domain tmp subj)"
proof -
  have "csr_command domain tmp subj =
      (''openssl req -reqexts v3_req -sha256 -new -key ca/'' @ domain @ ''.key -out ca/'' @ domain @
       ''.csr '') @ (''-config '' @ tmp) @ ('' -subj '' @ [CHR 0x22] @ subj @ [CHR 0x22])"
    by (simp add: csr_command_def)
  then show ?thesis by (metis sublist_appendI)
qed

lemma extfile_option:
  "sublist (''-extfile '' @ tmp) (sign_command domain tmp)"
proof -
  have "sign_command domain tmp =
      (''openssl x509 -req -days 365 -in ca/'' @ domain @
       ''.csr -CA ca/ca.crt -CAkey ca/ca.key -CAcreateserial -out ca/'' @ domain @ ''.crt '') @
      (''-extfile '' @ tmp) @ '' -extensions v3_req''"
    by (simp add: sign_command_def)
  then show ?thesis by (metis sublist_appendI)
qed

lemma server_cert_trace_bounds:
  assumes "fs s ''ca/openssl.cnf'' = Some a" "fs s ''ca/v3_req.cnf'' = Some b"
      "fs s (''ca/'' @ domain @ ''.cnf'') = Some c" "fs s (''ca/'' @ domain @ ''.subj'') = Some d"
      "fs s ''ca/ca.key'' \<noteq> None" "fs s ''ca/ca.crt'' \<noteq> None"
    and "mkstemp P (fs s) (world s) = (tmp, w0)"
  shows "prefix (trace s @ [Mkstemp tmp, Write tmp (a @ ''\<newline>'' @ b @ ''\<newline>'' @ c),
                           Exec (leaf_key_command domain)])
           (trace (snd (generate_server_cert P domain s)))
     \<and> prefix (trace (snd (generate_server_cert P domain s)))
          (trace s @ [Mkstemp tmp, Write tmp (a @ ''\<newline>'' @ b @ ''\<newline>'' @ c),
                      Exec (leaf_key_command domain), Exec (pkcs8_command domain),
                      Move (''ca/'' @ domain @ ''.key.pkcs8'') (''ca/'' @ domain @ ''.key''),
                      Exec (csr_command domain tmp (strip d)), Exec (sign_command domain tmp),
                      Unlink (''ca/'' @ domain @ ''.csr'')])"
proof -
  let ?s1 = "s\<lparr>printed := printed s @ [msg_server_begin1 @ domain @ msg_server_begin2]\<rparr>"
  have "find (\<lambda>f. fs s f = None) (required_files domain) = None"
    using assms by (simp add: required_present)
  then have run: "generate_server_cert P domain s = issue P domain ?s1"
    by (rule server_cert_issue)
  have "fs ?s1 ''ca/openssl.cnf'' = Some a" "fs ?s1 ''ca/v3_req.cnf'' = Some b"
      "fs ?s1 (''ca/'' @ domain @ ''.cnf'') = Some c" "fs ?s1 (''ca/'' @ domain @ ''.subj'') = Some d"
      "mkstemp P (fs ?s1) (world ?s1) = (tmp, w0)"
    using assms by simp_all
  from issue_trace_bounds [OF this] show ?thesis
    unfolding run by simp
qed

text \<open>
  Claim C5, as the script has it. When the required files are there, the first thing
  \<^verbatim>\<open>generate_server_cert\<close> does is to create the temporary file and to write to it the
  base template, a newline, the leaf-extensions template, a newline and the SAN block of
  the domain, in this order. The calls that follow are an initial part of the calls of a
  complete run, so the only signing-request and signing commands that can be run are the
  ones that name this file, after \<^verbatim>\<open>-config\<close> and after \<^verbatim>\<open>-extfile\<close>.
\<close>

theorem merged_profile_joined_by_newlines:
  assumes "fs s ''ca/openssl.cnf'' = Some a" "fs s ''ca/v3_req.cnf'' = Some b"
      "fs s (''ca/'' @ domain @ ''.cnf'') = Some c" "fs s (''ca/'' @ domain @ ''.subj'') = Some d"
      "fs s ''ca/ca.key'' \<noteq> None" "fs s ''ca/ca.crt'' \<noteq> None"
    and "mkstemp P (fs s) (world s) = (tmp, w0)"
  shows "prefix (trace s @ [Mkstemp tmp, Write tmp (a @ ''\<newline>'' @ b @ ''\<newline>'' @ c),
                           Exec (leaf_key_command domain)])
           (trace (snd (generate_server_cert P domain s)))
     \<and> prefix (trace (snd (generate_server_cert P domain s)))
          (trace s @ [Mkstemp tmp, Write tmp (a @ ''\<newline>'' @ b @ ''\<newline>'' @ c),
                      Exec (leaf_key_command domain), Exec (pkcs8_command domain),
                      Move (''ca/'' @ domain @ ''.key.pkcs8'') (''ca/'' @ domain @ ''.key''),
                      Exec (csr_command domain tmp (strip d)), Exec (sign_command domain tmp),
                      Unlink (''ca/'' @ domain @ ''.csr'')])
     \<and> sublist (''-config '' @ tmp) (csr_command domain tmp (strip d))
     \<and> sublist (''-extfile '' @ tmp) (sign_command domain tmp)"
  using server_cert_trace_bounds [OF assms] config_option extfile_option by blast

lemma stub_files:
  "fs (initial_state files_with_old_ca n) ''ca/openssl.cnf'' = Some openssl_cnf"
  "fs (initial_state files_with_old_ca n) ''ca/v3_req.cnf'' = Some v3_req_cnf"
  "fs (initial_state files_with_old_ca n) (''ca/'' @ ''example.com'' @ ''.cnf'')
     = Some (domain_cnf ''example.com'')"
  "fs (initial_state files_with_old_ca n) (''ca/'' @ ''example.com'' @ ''.subj'')
     = Some (domain_subj ''example.com'')"
  "fs (initial_state files_with_old_ca n) ''ca/ca.key'' \<noteq> None"
  "fs (initial_state files_with_old_ca n) ''ca/ca.crt'' \<noteq> None"
  by (simp_all add: initial_state_def files_with_old_ca_def default_files_def)

lemma stub_mkstemp:
  "mkstemp (stub_platform fl) (fs (initial_state files_with_old_ca 0))
     (world (initial_state files_with_old_ca 0)) = (''/tmp/tmp'', 1)"
  by (simp add: stub_platform_def initial_state_def)

theorem merged_profile_joined_by_newlines_witness:
  "prefix [Mkstemp ''/tmp/tmp'', Write ''/tmp/tmp'' merged0, Exec (leaf_key_command ''example.com'')]
     (trace (snd (generate_server_cert (stub_platform ''openssl x509'') ''example.com''
        (initial_state files_with_old_ca 0))))
   \<and> sublist ''-config /tmp/tmp'' (csr_command ''example.com'' ''/tmp/tmp'' subj0)
   \<and> sublist ''-extfile /tmp/tmp'' (sign_command ''example.com'' ''/tmp/tmp'')"
  using merged_profile_joined_by_newlines [OF stub_files stub_mkstemp, of "''openssl x509''"]
  by (simp add: initial_state_def merged0_def subj0_def)

text \<open>
  The claim as it was stated has the merged profile equal to the concatenation of the
  three files. On the default files the profile that is written has the two newlines
  between them and is not that concatenation.
\<close>

theorem merged_profile_plain_concatenation_counterexample:
  "fs (initial_state files_with_old_ca (0::nat)) ''ca/openssl.cnf'' = Some openssl_cnf
   \<and> fs (initial_state files_with_old_ca (0::nat)) ''ca/v3_req.cnf'' = Some v3_req_cnf
   \<and> fs (initial_state files_with_old_ca (0::nat)) ''ca/example.com.cnf''
       = Some (domain_cnf ''example.com'')
   \<and> take 2 (trace (snd (generate_server_cert (stub_platform []) ''example.com''
        (initial_state files_with_old_ca 0)))) = [Mkstemp ''/tmp/tmp'', Write ''/tmp/tmp'' merged0]
   \<and> merged0 = openssl_cnf @ ''\<newline>'' @ v3_req_cnf @ ''\<newline>'' @ domain_cnf ''example.com''
   \<and> merged0 \<noteq> openssl_cnf @ v3_req_cnf @ domain_cnf ''example.com''"
proof -
  have "take 2 (trace (snd (generate_server_cert (stub_platform []) ''example.com''
        (initial_state files_with_old_ca 0)))) = [Mkstemp ''/tmp/tmp'', Write ''/tmp/tmp'' merged0]"
    by (simp add: stub_server_cert stub_issue steps0_def)
  then show ?thesis
    using stub_files [of 0] merged0_not_plain by (simp add: merged0_def)
qed

section \<open>The signing request after a failed signing\<close>

text \<open>What \<^verbatim>\<open>cleanup_temp_files\<close> leaves of a file.\<close>

lemma cleanup_fs:
  "fs (snd (cleanup_temp_files s)) p = (if p \<in> set (temp_files s) then None else fs s p)"
  by (simp add: cleanup_temp_files_def cleanup_loop)

text \<open>
  Claim C10. When a call of \<^verbatim>\<open>generate_server_cert\<close> ends with the signing command as
  its last call, it has ended in the exit with status 1 after the failed signing. It has
  not removed \<^verbatim>\<open>ca/<domain>.csr\<close>, and the only path it has added to \<^verbatim>\<open>temp_files\<close>
  is the one that \<^verbatim>\<open>mkstemp\<close> returned: the clean-up at exit leaves the signing request
  as the failed command left it, unless that very path is a tracked one.
\<close>

theorem signing_request_left_behind:
  assumes "generate_server_cert P domain s = (r, s')"
    and "trace s' = trace s @ evs @ [Exec (sign_command domain t)]"
  shows "r = Inl (SystemExit 1)
     \<and> Unlink (''ca/'' @ domain @ ''.csr'') \<notin> set evs
     \<and> temp_files s' = temp_files s @ [fst (mkstemp P (fs s) (world s))]
     \<and> fs (snd (cleanup_temp_files s')) (''ca/'' @ domain @ ''.csr'') =
         (if ''ca/'' @ domain @ ''.csr'' \<in> set (temp_files s') then None
          else fs s' (''ca/'' @ domain @ ''.csr''))"
proof (cases "find (\<lambda>f. fs s f = None) (required_files domain)")
  case (Some f)
  from assms(1) have "trace s' = trace s"
    unfolding server_cert_missing [OF Some] by auto
  with assms(2) show ?thesis by simp
next
  case None
  let ?s1 = "s\<lparr>printed := printed s @ [msg_server_begin1 @ domain @ msg_server_begin2]\<rparr>"
  from assms(1) have run: "issue P domain ?s1 = (r, s')"
    by (simp add: server_cert_issue [OF None])
  have "trace s' = trace ?s1 @ evs @ [Exec (sign_command domain t)]"
    using assms(2) by simp
  from issue_aborts_at_sign [OF run this] show ?thesis
    by (simp add: cleanup_fs)
qed

text \<open>
  In the stand-in environment with a shell that refuses the signing, the request written
  by the command before is still there after the clean-up, and the temporary file is not.
\<close>

theorem signing_request_left_behind_witness:
  "fst (generate_server_cert (stub_platform ''openssl x509'') ''example.com''
      (initial_state files_with_old_ca 0)) = Inl (SystemExit 1)
   \<and> temp_files (snd (generate_server_cert (stub_platform ''openssl x509'') ''example.com''
      (initial_state files_with_old_ca 0))) = [''/tmp/tmp'']
   \<and> fs (snd (cleanup_temp_files (snd (generate_server_cert (stub_platform ''openssl x509'')
      ''example.com'' (initial_state files_with_old_ca 0))))) ''ca/example.com.csr'' = Some ''####''
   \<and> fs (snd (cleanup_temp_files (snd (generate_server_cert (stub_platform ''openssl x509'')
      ''example.com'' (initial_state files_with_old_ca 0))))) ''/tmp/tmp'' = None"
proof -
  let ?run = "generate_server_cert (stub_platform ''openssl x509'') ''example.com''
      (initial_state files_with_old_ca (0::nat))"
  have run: "?run = (fst ?run, snd ?run)" by simp
  have tr: "trace (snd ?run) = trace (initial_state files_with_old_ca (0::nat)) @
      [Mkstemp ''/tmp/tmp'', Write ''/tmp/tmp'' merged0,
       Exec (leaf_key_command ''example.com''), Exec (pkcs8_command ''example.com''),
       Move ''ca/example.com.key.pkcs8'' ''ca/example.com.key'',
       Exec (csr_command ''example.com'' ''/tmp/tmp'' subj0)] @
      [Exec (sign_command ''example.com'' ''/tmp/tmp'')]"
  proof -
    have a: "trace (snd ?run) = butlast steps0"
      by (simp add: stub_server_cert stub_issue)
    have b: "trace (initial_state files_with_old_ca (0::nat)) = []"
      by (simp add: initial_state_def)
    show ?thesis unfolding a b by (simp add: steps0_def)
  qed
  have csr: "fs (snd ?run) ''ca/example.com.csr'' = Some ''####''"
    by (simp add: stub_server_cert stub_issue)
  have tmp: "fst (mkstemp (stub_platform ''openssl x509'') (fs (initial_state files_with_old_ca 0))
      (world (initial_state files_with_old_ca 0))) = ''/tmp/tmp''"
    by (simp add: stub_platform_def initial_state_def)
  from signing_request_left_behind [OF run tr] csr tmp show ?thesis
    by (simp add: initial_state_def cleanup_fs)
qed

section \<open>The temporary files at the end of the process\<close>

text \<open>
  Every statement of the script keeps track of the temporary files: the one place that
  creates such a file, \<^verbatim>\<open>create_temp_file\<close>, also adds its path to the list.
\<close>

lemma kt_then:
  assumes "keeps_track m" and "\<And>x. keeps_track (f x)"
  shows "keeps_track (py_then m f)"
  unfolding keeps_track_def
proof (intro allI impI)
  fix s :: "'a state"
  assume s: "tracked s"
  obtain r s1 where m: "m s = (r, s1)" by (cases "m s")
  with assms(1) s have s1: "tracked s1" by (auto simp: keeps_track_def)
  show "tracked (snd (py_then m f s))"
  proof (cases r)
    case (Inl e)
    with m s1 show ?thesis by (simp add: py_then_def)
  next
    case (Inr x)
    with m s1 assms(2) [of x] show ?thesis by (simp add: py_then_def keeps_track_def)
  qed
qed

lemma kt_try:
  assumes "keeps_track body" and "keeps_track handler"
  shows "keeps_track (py_try body handler)"
  unfolding keeps_track_def
proof (intro allI impI)
  fix s :: "'a state"
  assume s: "tracked s"
  obtain r s1 where m: "body s = (r, s1)" by (cases "body s")
  with assms(1) s have s1: "tracked s1" by (auto simp: keeps_track_def)
  show "tracked (snd (py_try body handler s))"
    using m s1 assms(2) by (cases r) (simp_all add: py_try_def keeps_track_def)
qed

lemma kt_return: "keeps_track (py_return x)"
  by (simp add: keeps_track_def py_return_def)

lemma kt_for:
  assumes "\<And>x. keeps_track (body x)"
  shows "keeps_track (py_for xs body)"
  by (induction xs) (auto intro: kt_then kt_return assms)

lemma kt_if:
  assumes "keeps_track a" and "keeps_track b"
  shows "keeps_track (if c then a else b)"
  using assms by simp

lemma kt_calls:
  "keeps_track (print text)" "keeps_track (print_stderr text)" "keeps_track (sys_exit n)"
  "keeps_track (subprocess_run P command)" "keeps_track (os_path_exists path)"
  "keeps_track (os_makedirs path)" "keeps_track (write_file path content)"
  "keeps_track (read_file path)" "keeps_track (os_unlink path)" "keeps_track (os_remove path)"
  "keeps_track (shutil_move src dst)"
  by (auto simp: keeps_track_def tracked_def created_def print_def print_stderr_def sys_exit_def
        py_raise_def subprocess_run_def os_path_exists_def os_makedirs_def write_file_def
        read_file_def os_unlink_def os_remove_def shutil_move_def
        split: prod.splits option.splits)

lemma kt_create_temp_file: "keeps_track (create_temp_file P content)"
  by (auto simp: keeps_track_def tracked_def created_def create_temp_file_eq split: prod.splits)

lemma kt_error: "keeps_track (error message)"
  unfolding error_def by (intro kt_then kt_calls)

lemma kt_run_command: "keeps_track (run_command P command check)"
  unfolding run_command_def by (intro kt_then kt_calls kt_if kt_error kt_return)

lemma kt_main: "keeps_track (main P argv)"
  unfolding main_def Let_def check_openssl_def create_default_config_files_def
    generate_ca_cert_def generate_server_cert_def
  by (intro kt_then kt_try kt_for kt_if kt_calls kt_error kt_run_command kt_return
        kt_create_temp_file)

lemma cleanup_trace:
  "trace (snd (cleanup_temp_files s)) = trace s @ map Unlink (temp_files s)"
  by (simp add: cleanup_temp_files_def cleanup_loop)

lemma run_script_released:
  assumes "run_script P argv files w = (code, s)" and "Mkstemp p \<in> set (trace s)"
  shows "fs s p = None"
proof -
  obtain r s1 where m: "main P argv (initial_state files w) = (r, s1)"
    by (cases "main P argv (initial_state files w)")
  have "tracked (initial_state files w)"
    by (simp add: tracked_def created_def initial_state_def)
  with kt_main [of P argv] m have t: "tracked s1"
    by (auto simp: keeps_track_def)
  from assms(1) m have s: "s = snd (cleanup_temp_files s1)"
    by (simp add: run_script_def)
  with assms(2) have "Mkstemp p \<in> set (trace s1)"
    by (auto simp: cleanup_trace)
  with t have "p \<in> set (temp_files s1)"
    by (auto simp: tracked_def created_def)
  then show ?thesis by (simp add: s cleanup_fs)
qed

text \<open>
  Claim C7. In every run of the script as a process, whatever the arguments, the files and
  the environment, and whether \<^verbatim>\<open>main\<close> has returned or an exit or an exception has
  left it, every temporary file ever created by \<^verbatim>\<open>create_temp_file\<close> is gone when the
  process has ended.
\<close>

theorem temp_files_released_at_exit:
  assumes "run_script P argv files w = (code, s)" and "Mkstemp p \<in> set (trace s)"
  shows "fs s p = None"
  using assms by (rule run_script_released)

text \<open>
  A complete run in the stand-in environment creates the file of the merged profile and
  has removed it at the end.
\<close>

lemma stub_check_openssl:
  "check_openssl (stub_platform []) s =
     (Inr (), s\<lparr>world := Suc (world s), printed := printed s @ [msg_run @ ''openssl version''],
               trace := trace s @ [Exec ''openssl version'']\<rparr>)"
  by (simp add: check_openssl_def py_try_def py_then_def run_command_eq stub_platform_def
        stub_shell_def py_return_def)

lemma config_present:
  assumes "fs s ''ca/openssl.cnf'' \<noteq> None" "fs s ''ca/v3_ca.cnf'' \<noteq> None"
      "fs s ''ca/v3_req.cnf'' \<noteq> None" "fs s (''ca/'' @ domain @ ''.cnf'') \<noteq> None"
      "fs s (''ca/'' @ domain @ ''.subj'') \<noteq> None"
  shows "create_default_config_files domain s = (Inr (), s\<lparr>trace := trace s @ [Makedirs ''ca'']\<rparr>)"
  using assms
  by (auto simp: create_default_config_files_def py_then_def os_makedirs_def os_path_exists_def
        py_return_def)

lemma stub_generate_ca_cert:
  "generate_ca_cert (stub_platform []) s =
     (Inr (),
      s\<lparr>fs := (fs s)(''ca/ca.key'' \<mapsto> replicate (Suc (world s)) (CHR ''#''),
                     ''ca/ca.crt'' \<mapsto> replicate (Suc (Suc (world s))) (CHR ''#'')),
        world := Suc (Suc (world s)),
        printed := printed s @
          [msg_ca_begin, msg_run @ ca_key_command, msg_run @ ca_cert_command, msg_ca_done],
        trace := trace s @ [Exec ca_key_command, Exec ca_cert_command]\<rparr>)"
  by (simp add: generate_ca_cert_eq stub_ca_key stub_ca_cert)

lemma then_print_trace:
  "trace (snd (py_then m (\<lambda>_. print text) s)) = trace (snd (m s))"
  by (cases "m s") (auto simp: py_then_def print_def split: sum.splits)

lemma main_phases:
  assumes "check_openssl P s = (Inr (), s1)"
    and "create_default_config_files domain s1 = (Inr (), s2)"
    and "generate_ca_cert P s2 = (Inr (), s3)"
  shows "trace (snd (main P [script, ''--domain'', domain] s)) =
     trace (snd (generate_server_cert P domain s3))"
  using assms
  by (simp add: main_def py_then_def [where m = "check_openssl P"]
        py_then_def [where m = "create_default_config_files domain"]
        py_then_def [where m = "generate_ca_cert P"] then_print_trace)

lemma stub_main_trace:
  "\<exists>s3. trace (snd (main (stub_platform []) [''generate_certs.py'', ''--domain'', ''example.com'']
              (initial_state files_with_old_ca 0))) =
          trace (snd (generate_server_cert (stub_platform []) ''example.com'' s3))
        \<and> fs s3 = files_with_old_ca(''ca/ca.key'' \<mapsto> ''##'', ''ca/ca.crt'' \<mapsto> ''###'')
        \<and> world s3 = 3"
proof -
  let ?P = "stub_platform [] :: nat platform"
  let ?s0 = "initial_state files_with_old_ca (0::nat)"
  obtain s1 where s1: "check_openssl ?P ?s0 = (Inr (), s1)" "fs s1 = files_with_old_ca"
      "world s1 = 1"
    by (simp add: stub_check_openssl initial_state_def)
  have "fs s1 ''ca/openssl.cnf'' \<noteq> None" "fs s1 ''ca/v3_ca.cnf'' \<noteq> None"
      "fs s1 ''ca/v3_req.cnf'' \<noteq> None" "fs s1 (''ca/'' @ ''example.com'' @ ''.cnf'') \<noteq> None"
      "fs s1 (''ca/'' @ ''example.com'' @ ''.subj'') \<noteq> None"
    by (simp_all add: s1 files_with_old_ca_def default_files_def)
  from config_present [OF this]
  obtain s2 where s2: "create_default_config_files ''example.com'' s1 = (Inr (), s2)"
      "fs s2 = files_with_old_ca" "world s2 = 1"
    by (simp add: s1)
  obtain s3 where s3: "generate_ca_cert ?P s2 = (Inr (), s3)"
      "fs s3 = files_with_old_ca(''ca/ca.key'' \<mapsto> ''##'', ''ca/ca.crt'' \<mapsto> ''###'')"
      "world s3 = 3"
    by (simp add: stub_generate_ca_cert s2 eval_nat_numeral)
  from main_phases [OF s1(1) s2(1) s3(1)] s3(2,3) show ?thesis by blast
qed

theorem temp_files_released_at_exit_witness:
  "Mkstemp ''/tmp/tmpxxx'' \<in> set (trace (snd (run_script (stub_platform [])
        [''generate_certs.py'', ''--domain'', ''example.com''] files_with_old_ca 0)))
   \<and> fs (snd (run_script (stub_platform [])
        [''generate_certs.py'', ''--domain'', ''example.com''] files_with_old_ca 0))
       ''/tmp/tmpxxx'' = None"
proof -
  let ?P = "stub_platform [] :: nat platform"
  let ?argv = "[''generate_certs.py'', ''--domain'', ''example.com'']"
  let ?run = "run_script ?P ?argv files_with_old_ca 0"
  let ?m = "main ?P ?argv (initial_state files_with_old_ca 0)"
  from stub_main_trace obtain s3 where
    tr: "trace (snd ?m) = trace (snd (generate_server_cert ?P ''example.com'' s3))"
    and f3: "fs s3 = files_with_old_ca(''ca/ca.key'' \<mapsto> ''##'', ''ca/ca.crt'' \<mapsto> ''###'')"
    and w3: "world s3 = 3"
    by blast
  have files: "fs s3 ''ca/openssl.cnf'' = Some openssl_cnf" "fs s3 ''ca/v3_req.cnf'' = Some v3_req_cnf"
      "fs s3 (''ca/'' @ ''example.com'' @ ''.cnf'') = Some (domain_cnf ''example.com'')"
      "fs s3 (''ca/'' @ ''example.com'' @ ''.subj'') = Some (domain_subj ''example.com'')"
      "fs s3 ''ca/ca.key'' \<noteq> None" "fs s3 ''ca/ca.crt'' \<noteq> None"
    by (simp_all add: f3 files_with_old_ca_def default_files_def)
  have tmp: "mkstemp ?P (fs s3) (world s3) = (''/tmp/tmpxxx'', 4)"
    by (simp add: stub_platform_def w3 eval_nat_numeral)
  from server_cert_trace_bounds [OF files tmp]
  have "prefix (trace s3 @ [Mkstemp ''/tmp/tmpxxx'', Write ''/tmp/tmpxxx'' merged0,
                           Exec (leaf_key_command ''example.com'')])
           (trace (snd (generate_server_cert ?P ''example.com'' s3)))"
    by (simp add: merged0_def)
  from set_mono_prefix [OF this] have "Mkstemp ''/tmp/tmpxxx'' \<in> set (trace (snd ?m))"
    by (auto simp: tr)
  moreover have "snd ?run = snd (cleanup_temp_files (snd ?m))"
    by (simp add: run_script_def split: prod.splits)
  ultimately have a: "Mkstemp ''/tmp/tmpxxx'' \<in> set (trace (snd ?run))"
    by (simp add: cleanup_trace)
  have "?run = (fst ?run, snd ?run)" by simp
  from temp_files_released_at_exit [OF this a] a show ?thesis by simp
qed

section \<open>The subject line\<close>

text \<open>
  \<^verbatim>\<open>strip\<close> removes the white space at both ends, also the ideographic space U+3000, and
  leaves the default subject line as it is.
\<close>

lemma strip_example:
  "strip ([CHR 0x09] @ '' '' @ domain_subj ''example.com'' @ [CHR 0xE3, CHR 0x80, CHR 0x80, CHR 0x0A])
     = ''/C=CN/ST=State/L=City/O=Organization/OU=Unit/CN=example.com''"
  by code_simp

lemma strip_subj0: "subj0 = ''/C=CN/ST=State/L=City/O=Organization/OU=Unit/CN=example.com''"
  unfolding subj0_def by code_simp

section \<open>The validity periods\<close>






end
